theory Spec2Isabelle
  imports Main "HOL-Library.Word"
begin

section \<open>The document service of backend/server.py\<close>

text \<open>
  The service stores uploaded documents in a document database, extracts their text,
  and asks a remote language model for summaries, schemas and chat replies. Every route
  handler of \<^verbatim>\<open>server.py\<close> is a function here that takes the state of the world before
  the request and returns the response together with the state after it.

  What lies outside the repository is a parameter of the model (the record \<open>env\<close>
  below): the PDF library, the remote model, the layout engine, the clock and the
  generator of identifiers. A library call either returns a value (\<open>Inr\<close>) or raises an
  exception, kept as the text \<open>str(e)\<close> of that exception (\<open>Inl\<close>). The database itself
  is assumed to answer: its operations are total functions on the stored lists.
\<close>

subsection \<open>Strings and bytes\<close>

type_synonym bytes = "8 word list"

text \<open>\<^verbatim>\<open>str.isspace\<close> on the code points below 256, which is what \<^verbatim>\<open>str.strip()\<close> removes.\<close>

definition isspace :: "char \<Rightarrow> bool" where
  "isspace c =
     (let n = (of_char c :: nat)
      in (9 \<le> n \<and> n \<le> 13) \<or> (28 \<le> n \<and> n \<le> 32) \<or> n = 133 \<or> n = 160)"

definition strip :: "string \<Rightarrow> string" where
  "strip s = rev (dropWhile isspace (rev (dropWhile isspace s)))"

text \<open>\<^verbatim>\<open>s.startswith(p)\<close>.\<close>

definition startswith :: "string \<Rightarrow> string \<Rightarrow> bool" where
  "startswith s p = (take (length p) s = p)"

text \<open>\<^verbatim>\<open>s.split('\n')\<close>: the pieces between line breaks, at least one piece.\<close>

fun split_lines :: "string \<Rightarrow> string list" where
  "split_lines [] = [[]]"
| "split_lines (c # cs) =
     (if c = CHR ''\<newline>'' then [] # split_lines cs
      else (case split_lines cs of
              [] \<Rightarrow> [[c]]
            | l # ls \<Rightarrow> (c # l) # ls))"

subsection \<open>Exceptions and responses\<close>

text \<open>
  \<open>HTTPException status_code detail\<close> is FastAPI's exception; \<open>Exception m\<close> is any other
  exception, with \<open>str(e) = m\<close>. A handler that returns normally answers 200; an
  exception that leaves a handler unconverted is answered 500 by the framework.
\<close>

datatype exn = HTTPException nat string | Exception string

fun status_code :: "exn + 'a \<Rightarrow> nat" where
  "status_code (Inl (HTTPException c d)) = c"
| "status_code (Inl (Exception m)) = 500"
| "status_code (Inr r) = 200"

text \<open>
  The two \<^verbatim>\<open>except\<close> clauses that close most handlers:
  \<^verbatim>\<open>except HTTPException: raise\<close> and
  \<^verbatim>\<open>except Exception as e: raise HTTPException(status_code=500, detail=f"<prefix>{str(e)}")\<close>.
\<close>

fun reraise :: "string \<Rightarrow> exn + 'a \<Rightarrow> exn + 'a" where
  "reraise prefix (Inl (HTTPException c d)) = Inl (HTTPException c d)"
| "reraise prefix (Inl (Exception m)) = Inl (HTTPException 500 (prefix @ m))"
| "reraise prefix (Inr r) = Inr r"

subsection \<open>Documents, chat turns and the store\<close>

text \<open>
  The pydantic model \<^verbatim>\<open>DocumentUpload\<close>, which is also the shape of every record of the
  \<^verbatim>\<open>documents\<close> collection: \<^verbatim>\<open>upload_document\<close> is the only writer that inserts there,
  and it inserts \<^verbatim>\<open>document.dict()\<close>. An \<^verbatim>\<open>Optional[str]\<close> field is a \<open>string option\<close>;
  \<^verbatim>\<open>doc.get(key)\<close> reads it. The two timestamps are held as the ISO-8601 text that
  \<^verbatim>\<open>prepare_for_mongo\<close> stores. The field \<^verbatim>\<open>id\<close> is written \<open>id'\<close>.
\<close>

record DocumentUpload =
  id' :: string
  filename :: string
  content_type :: string
  file_size :: nat
  extracted_text :: "string option"
  summary_text :: "string option"
  summary_type :: "string option"
  mindmap_schema :: "string option"
  schema_type :: "string option"
  created_at :: string
  updated_at :: string

text \<open>
  \<^verbatim>\<open>ChatMessage\<close>, positionally: id, document_id, message, response, created_at.
\<close>

datatype ChatMessage = ChatMessage string "string option" string string string

text \<open>
  One request to the remote model: a fresh session with this system message, to which
  one user message with this text and these attached files (content and MIME type) is
  sent. Every call opens a session of its own, so no reply depends on an earlier call.
\<close>

record llm_request =
  system_message :: string
  user_text :: string
  file_contents :: "(bytes \<times> string) list"

text \<open>One block of the export: \<^verbatim>\<open>Paragraph(text, style)\<close> or \<^verbatim>\<open>Spacer(1, height)\<close>.\<close>

datatype flowable = Title string | Body string | Spacer nat

text \<open>The calls that leave the process, in the order they are made.\<close>

datatype call =
    PdfParse bytes
  | LlmSend llm_request
  | PdfBuild "flowable list"

record world =
  documents :: "DocumentUpload list"
  chat_messages :: "ChatMessage list"
  calls :: "call list"

text \<open>
  The surroundings of one request.
  \<^item> \<open>PdfReader env b\<close>: \<^verbatim>\<open>PyPDF2.PdfReader(io.BytesIO(b)).pages\<close>, with for each page
    what \<^verbatim>\<open>page.extract_text()\<close> does;
  \<^item> \<open>send_message env r\<close>: what building the session and the message and awaiting
    \<^verbatim>\<open>chat.send_message(user_message)\<close> does. The names \<^verbatim>\<open>LlmChat\<close>, \<^verbatim>\<open>UserMessage\<close>
    and \<^verbatim>\<open>FileContentWithMimeType\<close> are bound by no import of \<^verbatim>\<open>server.py\<close>; whatever
    they are bound to is this parameter;
  \<^item> \<open>build env story\<close>: creating the temporary file, \<^verbatim>\<open>doc.build(story)\<close>, and the
    path of the file written;
  \<^item> \<open>uuid4 env\<close>: the identifier \<^verbatim>\<open>str(uuid.uuid4())\<close> drawn for the record this
    request creates;
  \<^item> \<open>now env k\<close>: the \<open>k\<close>-th reading of \<^verbatim>\<open>datetime.now(timezone.utc)\<close> in this request,
    as ISO-8601 text.
\<close>

record env =
  PdfReader :: "bytes \<Rightarrow> string + (string + string) list"
  send_message :: "llm_request \<Rightarrow> string + string"
  build :: "flowable list \<Rightarrow> string + string"
  uuid4 :: string
  now :: "nat \<Rightarrow> string"

subsection \<open>Store operations\<close>

text \<open>The filter \<^verbatim>\<open>{"id": document_id}\<close>.\<close>

definition matches_id :: "string \<Rightarrow> DocumentUpload \<Rightarrow> bool" where
  "matches_id i d = (id' d = i)"

text \<open>\<^verbatim>\<open>find_one\<close>: the first record that matches, or \<^verbatim>\<open>None\<close>.\<close>

fun find_one :: "DocumentUpload list \<Rightarrow> string \<Rightarrow> DocumentUpload option" where
  "find_one [] i = None"
| "find_one (d # ds) i = (if matches_id i d then Some d else find_one ds i)"

text \<open>
  \<^verbatim>\<open>update_one(filter, {"$set": ...})\<close>: the first record that matches is replaced by
  \<open>f\<close> of it, where \<open>f\<close> sets the fields named under \<^verbatim>\<open>$set\<close>; no match, no change.
\<close>

fun update_one ::
  "DocumentUpload list \<Rightarrow> string \<Rightarrow> (DocumentUpload \<Rightarrow> DocumentUpload) \<Rightarrow> DocumentUpload list"
where
  "update_one [] i f = []"
| "update_one (d # ds) i f = (if matches_id i d then f d # ds else d # update_one ds i f)"

text \<open>\<^verbatim>\<open>delete_one\<close>: removes the first record that matches; returns \<^verbatim>\<open>deleted_count\<close> too.\<close>

fun delete_one :: "DocumentUpload list \<Rightarrow> string \<Rightarrow> nat \<times> DocumentUpload list" where
  "delete_one [] i = (0, [])"
| "delete_one (d # ds) i =
     (if matches_id i d then (1, ds)
      else (case delete_one ds i of (n, ds') \<Rightarrow> (n, d # ds')))"

text \<open>
  The invariant of the collection: no two stored documents share an identifier. Updates
  and deletions keep it, and an upload keeps it when the identifier it draws is fresh.
\<close>

definition unique_ids :: "world \<Rightarrow> bool" where
  "unique_ids w = distinct (map id' (documents w))"

subsection \<open>DELETE /document/{document_id}\<close>

definition delete_document :: "string \<Rightarrow> world \<Rightarrow> (exn + string) \<times> world" where
  "delete_document document_id w =
     (case delete_one (documents w) document_id of
        (deleted_count, docs) \<Rightarrow>
          (reraise ''Errore durante l'eliminazione: ''
             (if deleted_count = 0 then Inl (HTTPException 404 ''Documento non trovato.'')
              else Inr (''Documento '' @ document_id @ '' eliminato con successo.'')),
           w\<lparr>documents := docs\<rparr>))"

subsection \<open>Helper functions\<close>

text \<open>
  \<^verbatim>\<open>extract_text_from_pdf\<close>. The loop adds each page's text and a line break to \<open>text\<close>;
  an exception of the reader or of any page leaves the \<^verbatim>\<open>try\<close> and the function returns
  the empty string.
\<close>

fun extract_pages :: "(string + string) list \<Rightarrow> string \<Rightarrow> string + string" where
  "extract_pages [] text = Inr text"
| "extract_pages (page # pages) text =
     (case page of
        Inl e \<Rightarrow> Inl e
      | Inr t \<Rightarrow> extract_pages pages (text @ t @ ''\<newline>''))"

definition extract_text_from_pdf :: "env \<Rightarrow> bytes \<Rightarrow> world \<Rightarrow> string \<times> world" where
  "extract_text_from_pdf env file_content w =
     ((case PdfReader env file_content of
         Inl e \<Rightarrow> []
       | Inr pages \<Rightarrow>
           (case extract_pages pages [] of
              Inl e \<Rightarrow> []
            | Inr text \<Rightarrow> strip text)),
      w\<lparr>calls := calls w @ [PdfParse file_content]\<rparr>)"

text \<open>
  \<^verbatim>\<open>extract_text_with_gemini\<close>. The source passes the path of a temporary file that the
  caller has just filled with the uploaded bytes; the model passes those bytes. The
  request it sends:
\<close>

definition transcription_request :: "bytes \<Rightarrow> string \<Rightarrow> llm_request" where
  "transcription_request file mime_type =
     \<lparr>system_message =
        ''Sei un esperto nell'estrazione di testo da documenti. Estrai tutto il contenuto testuale dal documento fornito, mantenendo la struttura e l'ordine originale. Non omettere nessuna parte del contenuto.'',
      user_text =
        ''Estrai tutto il testo da questo documento. Mantieni la struttura e l'ordine originale. Non omettere nessuna sezione, paragrafo o pagina.'',
      file_contents = [(file, mime_type)]\<rparr>"

definition extract_text_with_gemini ::
  "env \<Rightarrow> bytes \<Rightarrow> string \<Rightarrow> world \<Rightarrow> (exn + string) \<times> world"
where
  "extract_text_with_gemini env file mime_type w =
     ((case send_message env (transcription_request file mime_type) of
         Inl e \<Rightarrow> Inl (HTTPException 500 (''Errore nell'estrazione del testo: '' @ e))
       | Inr response \<Rightarrow> Inr response),
      w\<lparr>calls := calls w @ [LlmSend (transcription_request file mime_type)]\<rparr>)"

definition length_instructions :: "string \<Rightarrow> string" where
  "length_instructions summary_type' =
     (if summary_type' = ''breve'' then ''Crea un riassunto molto conciso di massimo 200 parole''
      else if summary_type' = ''dettagliato''
        then ''Crea un riassunto dettagliato e completo di 600-800 parole''
      else ''Crea un riassunto di lunghezza media tra 300-500 parole'')"

definition accuracy_instructions :: "string \<Rightarrow> string" where
  "accuracy_instructions accuracy_level =
     (if accuracy_level = ''alta''
        then ''Mantieni tutti i dettagli importanti, dati, cifre e punti chiave senza omettere nulla di rilevante''
      else ''Mantieni le informazioni principali'')"

definition generate_summary_with_gemini ::
  "env \<Rightarrow> string \<Rightarrow> string \<Rightarrow> string \<Rightarrow> world \<Rightarrow> (exn + string) \<times> world"
where
  "generate_summary_with_gemini env text summary_type' accuracy_level w =
     (let request =
        \<lparr>system_message =
           ''\<newline>Sei un esperto nella creazione di riassunti. '' @ length_instructions summary_type'
           @ ''.\<newline>'' @ accuracy_instructions accuracy_level
           @ ''.\<newline>\<newline>Il riassunto deve:\<newline>- Catturare tutti i punti principali del documento\<newline>- Mantenere la logica e la struttura del testo originale\<newline>- Essere chiaro e ben organizzato\<newline>- Includere tutte le sezioni importanti del documento originale\<newline>'',
         user_text = ''Crea un riassunto del seguente testo:\<newline>\<newline>'' @ text,
         file_contents = []\<rparr>
      in ((case send_message env request of
             Inl e \<Rightarrow> Inl (HTTPException 500 (''Errore nella generazione del riassunto: '' @ e))
           | Inr response \<Rightarrow> Inr response),
          w\<lparr>calls := calls w @ [LlmSend request]\<rparr>))"

definition schema_instructions :: "string \<Rightarrow> string" where
  "schema_instructions schema_type' =
     (if schema_type' = ''cascata''
        then ''Crea uno schema a cascata/flow chart che mostri la sequenza logica, i processi e i collegamenti gerarchici del contenuto. Usa frecce e livelli per mostrare il flusso.''
      else ''Crea una mappa mentale in formato testuale con le idee principali, concetti chiave e collegamenti. Usa simboli, frecce e indentazione per mostrare le relazioni.'')"

definition generate_schema_with_gemini ::
  "env \<Rightarrow> string \<Rightarrow> string \<Rightarrow> world \<Rightarrow> (exn + string) \<times> world"
where
  "generate_schema_with_gemini env text schema_type' w =
     (let request =
        \<lparr>system_message =
           ''\<newline>Sei un esperto nella creazione di schemi e mappe mentali. ''
           @ schema_instructions schema_type'
           @ ''\<newline>\<newline>Lo schema deve:\<newline>- Essere visivamente chiaro e ben strutturato\<newline>- Mostrare tutte le relazioni importanti\<newline>- Usare simboli ASCII per migliorare la leggibilit''
           @ [CHR 0xE0]
           @ ''\<newline>- Essere esportabile e comprensibile\<newline>'',
         user_text =
           ''Crea uno schema '' @ schema_type' @ '' del seguente contenuto:\<newline>\<newline>'' @ text,
         file_contents = []\<rparr>
      in ((case send_message env request of
             Inl e \<Rightarrow> Inl (HTTPException 500 (''Errore nella generazione dello schema: '' @ e))
           | Inr response \<Rightarrow> Inr response),
          w\<lparr>calls := calls w @ [LlmSend request]\<rparr>))"

text \<open>
  \<^verbatim>\<open>create_pdf_export\<close>: the title, then one paragraph and one spacer for every line of
  the content that is not blank.
\<close>

definition story_of :: "string \<Rightarrow> string \<Rightarrow> flowable list" where
  "story_of content title =
     [Title title, Spacer 12]
     @ concat (map (\<lambda>para. if strip para \<noteq> [] then [Body para, Spacer 6] else [])
                (split_lines content))"

definition create_pdf_export :: "env \<Rightarrow> string \<Rightarrow> string \<Rightarrow> world \<Rightarrow> (exn + string) \<times> world" where
  "create_pdf_export env content title w =
     ((case build env (story_of content title) of
         Inl e \<Rightarrow> Inl (HTTPException 500 (''Errore nella creazione del PDF: '' @ e))
       | Inr path \<Rightarrow> Inr path),
      w\<lparr>calls := calls w @ [PdfBuild (story_of content title)]\<rparr>)"

subsection \<open>POST /upload\<close>

text \<open>
  The uploaded part, positionally: \<^verbatim>\<open>file.filename\<close>, \<^verbatim>\<open>file.content_type\<close> (absent when
  the part declares none) and the bytes that \<^verbatim>\<open>await file.read()\<close> returns.
\<close>

datatype UploadFile = UploadFile string "string option" bytes

text \<open>The response, positionally: id, filename, extracted_text, text_length, message.\<close>

datatype UploadResponse = UploadResponse string string string nat string

text \<open>
  \<^verbatim>\<open>DocumentUpload(filename=..., content_type=..., file_size=...)\<close> with the defaults of
  the model. The field \<^verbatim>\<open>content_type: str\<close> refuses \<^verbatim>\<open>None\<close>: pydantic raises a
  validation error, which is not an \<^verbatim>\<open>HTTPException\<close>.
\<close>

definition new_DocumentUpload :: "env \<Rightarrow> string \<Rightarrow> string option \<Rightarrow> nat \<Rightarrow> exn + DocumentUpload" where
  "new_DocumentUpload env filename' content_type' file_size' =
     (case content_type' of
        None \<Rightarrow>
          Inl (Exception ''1 validation error for DocumentUpload\<newline>content_type\<newline>  none is not an allowed value (type=type_error.none.not_allowed)'')
      | Some ct \<Rightarrow>
          Inr \<lparr>id' = uuid4 env, filename = filename', content_type = ct,
               file_size = file_size', extracted_text = None, summary_text = None,
               summary_type = None, mindmap_schema = None, schema_type = None,
               created_at = now env 0, updated_at = now env 1\<rparr>)"

text \<open>
  \<^verbatim>\<open>upload_document\<close>. The record that \<^verbatim>\<open>insert_one\<close> stores is the model's dictionary;
  the \<^verbatim>\<open>_id\<close> the driver adds to it is read by no handler and is left out.
\<close>

definition upload_document :: "env \<Rightarrow> UploadFile \<Rightarrow> world \<Rightarrow> (exn + UploadResponse) \<times> world" where
  "upload_document env file w =
     (case file of UploadFile filename' content_type' contents \<Rightarrow>
      (case
         (if length contents > 100 * 1024 * 1024
          then (Inl (HTTPException 413 ''File troppo grande. Massimo 100MB.''), w)
          else
            (case new_DocumentUpload env filename' content_type' (length contents) of
               Inl e \<Rightarrow> (Inl e, w)
             | Inr document \<Rightarrow>
                 (case
                    (if content_type' = Some ''application/pdf'' then
                       (case extract_text_from_pdf env contents w of
                          (extracted_text', w1) \<Rightarrow>
                            if extracted_text' = [] \<or> length (strip extracted_text') < 50
                            then extract_text_with_gemini env contents ''application/pdf'' w1
                            else (Inr extracted_text', w1))
                     else if startswith (content_type document) ''image/'' then
                       extract_text_with_gemini env contents (content_type document) w
                     else
                       (Inl (HTTPException 400
                               ''Tipo di file non supportato. Usa PDF o immagini.''), w))
                  of
                    (Inl e, w2) \<Rightarrow> (Inl e, w2)
                  | (Inr extracted_text', w2) \<Rightarrow>
                      if extracted_text' = [] then
                        (Inl (HTTPException 400 ''Impossibile estrarre testo dal documento.''),
                         w2)
                      else
                        (Inr (UploadResponse (id' document) (filename document)
                                (if length extracted_text' > 500
                                 then take 500 extracted_text' @ ''...''
                                 else extracted_text')
                                (length extracted_text')
                                ''Documento caricato e analizzato con successo''),
                         w2\<lparr>documents := documents w2
                               @ [document\<lparr>extracted_text := Some extracted_text'\<rparr>]\<rparr>))))
       of (r, w') \<Rightarrow> (reraise ''Errore durante il caricamento: '' r, w')))"

subsection \<open>POST /generate-summary and POST /generate-schema\<close>

text \<open>\<^verbatim>\<open>SummaryRequest\<close>, positionally: document_id, summary_type, accuracy_level.\<close>

datatype SummaryRequest = SummaryRequest string string string

text \<open>The response, positionally: document_id, summary, summary_type, accuracy_level.\<close>

datatype SummaryResponse = SummaryResponse string string string string

definition generate_summary :: "env \<Rightarrow> SummaryRequest \<Rightarrow> world \<Rightarrow> (exn + SummaryResponse) \<times> world" where
  "generate_summary env request w =
     (case request of SummaryRequest document_id summary_type' accuracy_level \<Rightarrow>
      (case
         (case find_one (documents w) document_id of
            None \<Rightarrow> (Inl (HTTPException 404 ''Documento non trovato''), w)
          | Some document \<Rightarrow>
              (case extracted_text document of
                 None \<Rightarrow>
                   (Inl (HTTPException 400 ''Testo non disponibile per questo documento''), w)
               | Some text \<Rightarrow>
                   if text = [] then
                     (Inl (HTTPException 400 ''Testo non disponibile per questo documento''), w)
                   else
                     (case generate_summary_with_gemini env text summary_type' accuracy_level w of
                        (Inl e, w1) \<Rightarrow> (Inl e, w1)
                      | (Inr summary, w1) \<Rightarrow>
                          (Inr (SummaryResponse document_id summary summary_type' accuracy_level),
                           w1\<lparr>documents :=
                                update_one (documents w1) document_id
                                  (\<lambda>d. d\<lparr>summary_text := Some summary,
                                          summary_type := Some summary_type',
                                          updated_at := now env 0\<rparr>)\<rparr>))))
       of (r, w') \<Rightarrow> (reraise ''Errore nella generazione del riassunto: '' r, w')))"

text \<open>\<^verbatim>\<open>SchemaRequest\<close>, positionally: document_id, schema_type.\<close>

datatype SchemaRequest = SchemaRequest string string

text \<open>The response, positionally: document_id, schema, schema_type.\<close>

datatype SchemaResponse = SchemaResponse string string string

definition generate_schema :: "env \<Rightarrow> SchemaRequest \<Rightarrow> world \<Rightarrow> (exn + SchemaResponse) \<times> world" where
  "generate_schema env request w =
     (case request of SchemaRequest document_id schema_type' \<Rightarrow>
      (case
         (case find_one (documents w) document_id of
            None \<Rightarrow> (Inl (HTTPException 404 ''Documento non trovato''), w)
          | Some document \<Rightarrow>
              (case extracted_text document of
                 None \<Rightarrow>
                   (Inl (HTTPException 400 ''Testo non disponibile per questo documento''), w)
               | Some text \<Rightarrow>
                   if text = [] then
                     (Inl (HTTPException 400 ''Testo non disponibile per questo documento''), w)
                   else
                     (case generate_schema_with_gemini env text schema_type' w of
                        (Inl e, w1) \<Rightarrow> (Inl e, w1)
                      | (Inr schema, w1) \<Rightarrow>
                          (Inr (SchemaResponse document_id schema schema_type'),
                           w1\<lparr>documents :=
                                update_one (documents w1) document_id
                                  (\<lambda>d. d\<lparr>mindmap_schema := Some schema,
                                          schema_type := Some schema_type',
                                          updated_at := now env 0\<rparr>)\<rparr>))))
       of (r, w') \<Rightarrow> (reraise ''Errore nella generazione dello schema: '' r, w')))"

subsection \<open>POST /chat\<close>

text \<open>\<^verbatim>\<open>ChatRequest\<close>, positionally: document_id, message, context.\<close>

datatype ChatRequest = ChatRequest "string option" string "string option"

text \<open>The response, positionally: message, response, chat_id.\<close>

datatype ChatResponse = ChatResponse string string string

definition base_system_message :: string where
  "base_system_message =
     ''Sei un assistente AI specializzato nell'aiutare gli utenti con documenti e contenuti. Puoi rispondere a domande, suggerire modifiche, e fornire supporto.''"

text \<open>
  The system message after \<^verbatim>\<open>if request.document_id:\<close>. An absent or empty identifier, an
  identifier no record has, and a record without text all leave the message as it is.
\<close>

definition with_document_context :: "DocumentUpload list \<Rightarrow> string option \<Rightarrow> string \<Rightarrow> string" where
  "with_document_context docs document_id system_message' =
     (case document_id of
        None \<Rightarrow> system_message'
      | Some i \<Rightarrow>
          if i = [] then system_message'
          else
            (case find_one docs i of
               None \<Rightarrow> system_message'
             | Some document \<Rightarrow>
                 (case extracted_text document of
                    None \<Rightarrow> system_message'
                  | Some text \<Rightarrow>
                      if text = [] then system_message'
                      else system_message' @ ''\<newline>\<newline>Contesto del documento: ''
                           @ take 2000 text @ ''...'')))"

text \<open>The system message after \<^verbatim>\<open>if request.context:\<close>.\<close>

definition with_additional_context :: "string option \<Rightarrow> string \<Rightarrow> string" where
  "with_additional_context context system_message' =
     (case context of
        None \<Rightarrow> system_message'
      | Some c \<Rightarrow>
          if c = [] then system_message'
          else system_message' @ ''\<newline>\<newline>Contesto aggiuntivo: '' @ c)"

text \<open>
  \<^verbatim>\<open>chat_with_document\<close>. Its only \<^verbatim>\<open>except\<close> clause is \<^verbatim>\<open>except Exception\<close>, and the
  only step of the body that can raise is the remote call.
\<close>

definition chat_with_document :: "env \<Rightarrow> ChatRequest \<Rightarrow> world \<Rightarrow> (exn + ChatResponse) \<times> world" where
  "chat_with_document env request w =
     (case request of ChatRequest document_id message context \<Rightarrow>
      (let llm =
         \<lparr>system_message =
            with_additional_context context
              (with_document_context (documents w) document_id base_system_message),
          user_text = message,
          file_contents = []\<rparr>;
         w1 = w\<lparr>calls := calls w @ [LlmSend llm]\<rparr>
       in (case send_message env llm of
             Inl e \<Rightarrow> (Inl (HTTPException 500 (''Errore nella chat: '' @ e)), w1)
           | Inr response \<Rightarrow>
               (Inr (ChatResponse message response (uuid4 env)),
                w1\<lparr>chat_messages := chat_messages w1
                      @ [ChatMessage (uuid4 env) document_id message response (now env 0)]\<rparr>))))"

subsection \<open>GET /export-pdf/{document_id}\<close>

text \<open>
  \<^verbatim>\<open>FileResponse(path=..., media_type=..., filename=...)\<close>, positionally.
\<close>

datatype FileResponse = FileResponse string string string

text \<open>
  \<^verbatim>\<open>export_pdf\<close>. The query parameter is declared \<^verbatim>\<open>content_type: str = "summary"\<close>: a
  request without it runs the handler with \<^verbatim>\<open>"summary"\<close>. The chosen field and the title:
\<close>

definition export_selection :: "DocumentUpload \<Rightarrow> string \<Rightarrow> exn + (string option \<times> string)" where
  "export_selection document content_type' =
     (if content_type' = ''summary'' then
        Inr (summary_text document, ''Riassunto - '' @ filename document)
      else if content_type' = ''schema'' then
        Inr (mindmap_schema document, ''Schema - '' @ filename document)
      else if content_type' = ''full'' then
        Inr (extracted_text document, ''Testo Completo - '' @ filename document)
      else Inl (HTTPException 400 ''Tipo di contenuto non valido''))"

definition export_pdf :: "env \<Rightarrow> string \<Rightarrow> string option \<Rightarrow> world \<Rightarrow> (exn + FileResponse) \<times> world" where
  "export_pdf env document_id content_type_param w =
     (let content_type' = (case content_type_param of None \<Rightarrow> ''summary'' | Some c \<Rightarrow> c) in
      (case
         (case find_one (documents w) document_id of
            None \<Rightarrow> (Inl (HTTPException 404 ''Documento non trovato''), w)
          | Some document \<Rightarrow>
              (case export_selection document content_type' of
                 Inl e \<Rightarrow> (Inl e, w)
               | Inr (None, title) \<Rightarrow>
                   (Inl (HTTPException 400 ''Contenuto non disponibile''), w)
               | Inr (Some content, title) \<Rightarrow>
                   if content = [] then
                     (Inl (HTTPException 400 ''Contenuto non disponibile''), w)
                   else
                     (case create_pdf_export env content title w of
                        (Inl e, w1) \<Rightarrow> (Inl e, w1)
                      | (Inr pdf_path, w1) \<Rightarrow>
                          (Inr (FileResponse pdf_path ''application/pdf'' (title @ ''.pdf'')),
                           w1))))
       of (r, w') \<Rightarrow> (reraise ''Errore nell'esportazione PDF: '' r, w')))"

subsection \<open>GET /documents and GET /document/{document_id}\<close>

text \<open>
  One row of the listing, positionally: id, filename, content_type, file_size,
  has_summary, has_schema, created_at, text_preview.
\<close>

datatype DocumentRow = DocumentRow string string string nat bool bool string "string option"

text \<open>\<^verbatim>\<open>bool(doc.get(key))\<close> for an optional string.\<close>

definition truthy :: "string option \<Rightarrow> bool" where
  "truthy v = (case v of None \<Rightarrow> False | Some s \<Rightarrow> s \<noteq> [])"

definition document_row :: "DocumentUpload \<Rightarrow> DocumentRow" where
  "document_row doc =
     DocumentRow (id' doc) (filename doc) (content_type doc) (file_size doc)
       (truthy (summary_text doc)) (truthy (mindmap_schema doc)) (created_at doc)
       (case extracted_text doc of
          None \<Rightarrow> None
        | Some text \<Rightarrow> if text = [] then None else Some (take 200 text @ ''...''))"

text \<open>\<^verbatim>\<open>get_documents\<close>: \<^verbatim>\<open>find().to_list(1000)\<close> reads at most 1000 records.\<close>

definition get_documents :: "world \<Rightarrow> exn + DocumentRow list" where
  "get_documents w = Inr (map document_row (take 1000 (documents w)))"

definition get_document :: "string \<Rightarrow> world \<Rightarrow> exn + DocumentUpload" where
  "get_document document_id w =
     reraise ''Errore nel recupero documento: ''
       (case find_one (documents w) document_id of
          None \<Rightarrow> Inl (HTTPException 404 ''Documento non trovato'')
        | Some document \<Rightarrow> Inr document)"

subsection \<open>Sample data\<close>

text \<open>A small store and surroundings on which the theorems below are run.\<close>

definition sample_doc :: "string \<Rightarrow> string option \<Rightarrow> DocumentUpload" where
  "sample_doc i text =
     \<lparr>id' = i, filename = ''a.pdf'', content_type = ''application/pdf'', file_size = 3,
      extracted_text = text, summary_text = None, summary_type = None,
      mindmap_schema = None, schema_type = None,
      created_at = ''2024-01-01T00:00:00+00:00'', updated_at = ''2024-01-01T00:00:00+00:00''\<rparr>"

definition sample_world :: world where
  "sample_world =
     \<lparr>documents = [sample_doc ''d1'' (Some ''hello''), sample_doc ''d2'' None,
                   sample_doc ''d3'' (Some []),
                   (sample_doc ''d4'' (Some ''hello''))
                     \<lparr>summary_text := Some ''hi'', summary_type := Some ''breve''\<rparr>],
      chat_messages = [], calls = []\<rparr>"

text \<open>A store of 1001 documents.\<close>

definition crowded_world :: world where
  "crowded_world =
     \<lparr>documents = replicate 1001 (sample_doc ''d'' None), chat_messages = [], calls = []\<rparr>"

definition sample_env :: "string + (string + string) list \<Rightarrow> string + string \<Rightarrow> env" where
  "sample_env reader reply =
     \<lparr>PdfReader = (\<lambda>b. reader), send_message = (\<lambda>r. reply),
      build = (\<lambda>s. Inr ''/tmp/out.pdf''), uuid4 = ''u1'',
      now = (\<lambda>k. ''2024-01-02T00:00:00+00:00'')\<rparr>"

text \<open>The text of one page, 59 characters long.\<close>

definition sample_page :: string where
  "sample_page = ''This page holds sixty characters of text, exactly sixty ok.''"

text \<open>A file of exactly 100MB, and one that is a single byte longer.\<close>

definition limit_file :: bytes where
  "limit_file = replicate (100 * 1024 * 1024) 0"

definition oversized_file :: bytes where
  "oversized_file = replicate (100 * 1024 * 1024 + 1) 0"

section \<open>Properties\<close>

subsection \<open>Store operations\<close>

lemma delete_one_count:
  "fst (delete_one ds i) = (if filter (matches_id i) ds = [] then 0 else 1)"
  by (induction ds) (auto split: prod.splits)

lemma delete_one_filter:
  "filter (matches_id i) (snd (delete_one ds i)) = tl (filter (matches_id i) ds)"
  by (induction ds) (auto split: prod.splits)

subsection \<open>Facts about the sample data\<close>

lemma length_limit_file: "length limit_file = 104857600"
  by (simp add: limit_file_def)

lemma length_oversized_file: "length oversized_file = 104857601"
  by (simp add: oversized_file_def)

lemma strip_Nil: "strip [] = []"
  by (simp add: strip_def)

subsection \<open>The branches of an upload\<close>

lemma upload_too_large:
  "length contents > 100 * 1024 * 1024 \<Longrightarrow>
   upload_document env (UploadFile fn ct contents) w =
     (Inl (HTTPException 413 ''File troppo grande. Massimo 100MB.''), w)"
  by (simp add: upload_document_def)

lemma upload_untyped:
  "\<not> length contents > 100 * 1024 * 1024 \<Longrightarrow>
   status_code (fst (upload_document env (UploadFile fn None contents) w)) = 500 \<and>
   snd (upload_document env (UploadFile fn None contents) w) = w"
  by (simp add: upload_document_def new_DocumentUpload_def)

lemma upload_other_type:
  "\<not> length contents > 100 * 1024 * 1024 \<Longrightarrow> ct \<noteq> ''application/pdf'' \<Longrightarrow>
   \<not> startswith ct ''image/'' \<Longrightarrow>
   upload_document env (UploadFile fn (Some ct) contents) w =
     (Inl (HTTPException 400 ''Tipo di file non supportato. Usa PDF o immagini.''), w)"
  by (simp add: upload_document_def new_DocumentUpload_def)

lemma upload_image_documents:
  assumes "\<not> length contents > 100 * 1024 * 1024" and "ct \<noteq> ''application/pdf''"
    and "startswith ct ''image/''"
  shows "documents (snd (upload_document env (UploadFile fn (Some ct) contents) w)) =
           documents w \<or>
         (\<exists>d t. documents (snd (upload_document env (UploadFile fn (Some ct) contents) w)) =
                  documents w @ [d] \<and>
                id' d = uuid4 env \<and> extracted_text d = Some t \<and> t \<noteq> [])"
proof (cases "send_message env (transcription_request contents ct)")
  case (Inl e)
  with assms show ?thesis
    by (simp add: upload_document_def new_DocumentUpload_def extract_text_with_gemini_def)
next
  case (Inr t)
  with assms show ?thesis
    by (cases "t = []")
       (simp_all add: upload_document_def new_DocumentUpload_def extract_text_with_gemini_def)
qed

lemma upload_pdf_documents:
  assumes "\<not> length contents > 100 * 1024 * 1024"
  shows "documents (snd (upload_document env
                     (UploadFile fn (Some ''application/pdf'') contents) w)) =
           documents w \<or>
         (\<exists>d t. documents (snd (upload_document env
                     (UploadFile fn (Some ''application/pdf'') contents) w)) =
                  documents w @ [d] \<and>
                id' d = uuid4 env \<and> extracted_text d = Some t \<and> t \<noteq> [])"
proof -
  obtain t w1 where e: "extract_text_from_pdf env contents w = (t, w1)"
    by (cases "extract_text_from_pdf env contents w")
  then have w1: "w1 = w\<lparr>calls := calls w @ [PdfParse contents]\<rparr>"
    by (simp add: extract_text_from_pdf_def)
  show ?thesis
  proof (cases "t = [] \<or> length (strip t) < 50")
    case True
    show ?thesis
    proof (cases "send_message env (transcription_request contents ''application/pdf'')")
      case (Inl m)
      with True assms e w1 show ?thesis
        by (auto simp add: upload_document_def new_DocumentUpload_def
            extract_text_with_gemini_def)
    next
      case (Inr r)
      with True assms e w1 show ?thesis
        by (cases "r = []")
           (auto simp add: upload_document_def new_DocumentUpload_def
              extract_text_with_gemini_def)
    qed
  next
    case False
    with assms e w1 show ?thesis
      by (simp add: upload_document_def new_DocumentUpload_def)
  qed
qed

lemma upload_documents:
  "documents (snd (upload_document env u w)) = documents w \<or>
   (\<exists>d t. documents (snd (upload_document env u w)) = documents w @ [d] \<and>
          id' d = uuid4 env \<and> extracted_text d = Some t \<and> t \<noteq> [])"
proof (cases u)
  case (UploadFile fn ct contents)
  show ?thesis
  proof (cases "length contents > 100 * 1024 * 1024")
    case True
    with UploadFile show ?thesis by (simp add: upload_too_large)
  next
    case small: False
    show ?thesis
    proof (cases ct)
      case None
      with UploadFile small show ?thesis by (simp add: upload_untyped)
    next
      case (Some c)
      show ?thesis
      proof (cases "c = ''application/pdf''")
        case True
        with UploadFile Some upload_pdf_documents [OF small] show ?thesis by simp
      next
        case other: False
        show ?thesis
        proof (cases "startswith c ''image/''")
          case True
          with UploadFile Some upload_image_documents [OF small other] show ?thesis by simp
        next
          case False
          with UploadFile Some small other show ?thesis by (simp add: upload_other_type)
        qed
      qed
    qed
  qed
qed

subsection \<open>Updates keep what they do not set\<close>

lemma update_one_map:
  assumes "\<And>d. g (f d) = g d"
  shows "map g (update_one ds i f) = map g ds"
  using assms by (induction ds) auto

lemma generate_summary_keeps:
  "map id' (documents (snd (generate_summary env rq w))) = map id' (documents w) \<and>
   map extracted_text (documents (snd (generate_summary env rq w))) =
     map extracted_text (documents w)"
  by (cases rq)
     (simp add: generate_summary_def generate_summary_with_gemini_def Let_def update_one_map
        split: option.splits sum.splits prod.splits)

lemma generate_schema_keeps:
  "map id' (documents (snd (generate_schema env rq w))) = map id' (documents w) \<and>
   map extracted_text (documents (snd (generate_schema env rq w))) =
     map extracted_text (documents w)"
  by (cases rq)
     (simp add: generate_schema_def generate_schema_with_gemini_def Let_def update_one_map
        split: option.splits sum.splits prod.splits)

lemma chat_keeps_documents: "documents (snd (chat_with_document env rq w)) = documents w"
  by (cases rq) (simp add: chat_with_document_def Let_def split: sum.splits)

lemma export_keeps_documents: "documents (snd (export_pdf env i p w)) = documents w"
  by (simp add: export_pdf_def create_pdf_export_def Let_def
      split: option.splits sum.splits prod.splits)

subsection \<open>Documents without text\<close>

text \<open>
  Claim C5. When the stored document that the store returns for the identifier has no
  extracted text (the field is absent or empty), generate-summary and generate-schema
  both answer 400, and the state after the request is the state before it: no call to
  the remote generator was made and no document was changed.
\<close>

theorem generate_without_text:
  assumes "find_one (documents w) i = Some d"
    and "extracted_text d = None \<or> extracted_text d = Some []"
  shows "generate_summary env (SummaryRequest i st al) w =
           (Inl (HTTPException 400 ''Testo non disponibile per questo documento''), w) \<and>
         status_code (fst (generate_summary env (SummaryRequest i st al) w)) = 400 \<and>
         generate_schema env (SchemaRequest i sc) w =
           (Inl (HTTPException 400 ''Testo non disponibile per questo documento''), w) \<and>
         status_code (fst (generate_schema env (SchemaRequest i sc) w)) = 400"
  using assms by (auto simp: generate_summary_def generate_schema_def)

theorem generate_without_text_witness:
  "find_one (documents sample_world) ''d2'' = Some (sample_doc ''d2'' None) \<and>
   extracted_text (sample_doc ''d2'' None) = None \<and>
   status_code (fst (generate_summary (sample_env (Inr []) (Inr ''reply''))
                       (SummaryRequest ''d2'' ''breve'' ''alta'') sample_world)) = 400 \<and>
   snd (generate_summary (sample_env (Inr []) (Inr ''reply''))
          (SummaryRequest ''d2'' ''breve'' ''alta'') sample_world) = sample_world \<and>
   status_code (fst (generate_schema (sample_env (Inr []) (Inr ''reply''))
                       (SchemaRequest ''d2'' ''cascata'') sample_world)) = 400 \<and>
   snd (generate_schema (sample_env (Inr []) (Inr ''reply''))
          (SchemaRequest ''d2'' ''cascata'') sample_world) = sample_world"
proof -
  have f: "find_one (documents sample_world) ''d2'' = Some (sample_doc ''d2'' None)"
    by (simp add: sample_world_def sample_doc_def matches_id_def)
  have t: "extracted_text (sample_doc ''d2'' None) = None \<or>
           extracted_text (sample_doc ''d2'' None) = Some []"
    by (simp add: sample_doc_def)
  show ?thesis
    using f generate_without_text [OF f t, of "sample_env (Inr []) (Inr ''reply'')" "''breve''"
        "''alta''" "''cascata''"]
    by (simp add: sample_doc_def)
qed

subsection \<open>The extracted text stays\<close>

text \<open>
  Claim C7. No operation but deletion touches the extracted text of a stored document:
  after generate-summary, generate-schema, chat and export, whatever their outcome, the
  stored documents carry, in order, the identifiers and the extracted texts they
  carried before (chat and export leave the whole collection as it was), and an upload only adds
  a document behind the ones already stored.
\<close>

theorem extracted_text_kept:
  "map id' (documents (snd (generate_summary env rs w))) = map id' (documents w) \<and>
   map extracted_text (documents (snd (generate_summary env rs w))) =
     map extracted_text (documents w) \<and>
   map id' (documents (snd (generate_schema env rc w))) = map id' (documents w) \<and>
   map extracted_text (documents (snd (generate_schema env rc w))) =
     map extracted_text (documents w) \<and>
   documents (snd (chat_with_document env rq w)) = documents w \<and>
   documents (snd (export_pdf env i p w)) = documents w \<and>
   take (length (documents w)) (documents (snd (upload_document env u w))) = documents w"
proof -
  have "take (length (documents w)) (documents (snd (upload_document env u w))) =
      documents w"
    using upload_documents [of env u w] by auto
  then show ?thesis
    by (simp add: generate_summary_keeps generate_schema_keeps chat_keeps_documents
        export_keeps_documents)
qed

theorem extracted_text_kept_witness:
  "map extracted_text (documents (snd (generate_summary (sample_env (Inr []) (Inr ''reply''))
       (SummaryRequest ''d1'' ''breve'' ''alta'') sample_world))) =
     [Some ''hello'', None, Some [], Some ''hello''] \<and>
   map extracted_text (documents (snd (generate_schema (sample_env (Inr []) (Inr ''reply''))
       (SchemaRequest ''d1'' ''cascata'') sample_world))) =
     [Some ''hello'', None, Some [], Some ''hello'']"
proof -
  have "map extracted_text (documents sample_world) =
      [Some ''hello'', None, Some [], Some ''hello'']"
    by (simp add: sample_world_def sample_doc_def)
  then show ?thesis
    using extracted_text_kept [of "sample_env (Inr []) (Inr ''reply'')"
        "SummaryRequest ''d1'' ''breve'' ''alta''" sample_world
        "SchemaRequest ''d1'' ''cascata''"]
    by simp
qed

subsection \<open>The listing\<close>

text \<open>
  Claim C9. GET /documents answers 200 with one row for each of the first 1000 stored
  documents and nothing else: the rows are never more than 1000, a store of more than
  1000 documents gives exactly 1000 rows, and the documents behind the first 1000 have
  no part in the response.
\<close>

theorem get_documents_first_1000:
  "get_documents w = Inr (map document_row (take 1000 (documents w))) \<and>
   status_code (get_documents w) = 200 \<and>
   (\<forall>rows. get_documents w = Inr rows \<longrightarrow>
      length rows \<le> 1000 \<and>
      (1000 < length (documents w) \<longrightarrow> length rows = 1000)) \<and>
   get_documents (w\<lparr>documents := take 1000 (documents w)\<rparr>) = get_documents w"
  by (auto simp: get_documents_def)

theorem get_documents_first_1000_witness:
  "length (documents crowded_world) = 1001 \<and>
   get_documents crowded_world =
     Inr (replicate 1000 (document_row (sample_doc ''d'' None))) \<and>
   status_code (get_documents crowded_world) = 200"
  using get_documents_first_1000 [of crowded_world]
  by (simp add: crowded_world_def)

subsection \<open>Chat about a document that is not stored\<close>

text \<open>
  Claim C10. A chat request whose document_id matches no stored document is not
  answered 404. The remote model is called once, with the base system instruction
  (extended only by the caller's own context, when there is one; no document context);
  when that call succeeds the chat turn is stored, the documents are left alone and the
  response is 200.
\<close>

theorem chat_unknown_document:
  assumes "find_one (documents w) i = None"
  shows "status_code (fst (chat_with_document env (ChatRequest (Some i) message context) w))
           \<noteq> 404 \<and>
    with_additional_context None base_system_message = base_system_message \<and>
    calls (snd (chat_with_document env (ChatRequest (Some i) message context) w)) =
      calls w @ [LlmSend \<lparr>system_message = with_additional_context context base_system_message,
                          user_text = message, file_contents = []\<rparr>] \<and>
    (\<forall>response.
       send_message env \<lparr>system_message = with_additional_context context base_system_message,
                         user_text = message, file_contents = []\<rparr> = Inr response \<longrightarrow>
       status_code (fst (chat_with_document env (ChatRequest (Some i) message context) w))
         = 200 \<and>
       chat_with_document env (ChatRequest (Some i) message context) w =
         (Inr (ChatResponse message response (uuid4 env)),
          w\<lparr>calls := calls w @
                [LlmSend \<lparr>system_message = with_additional_context context base_system_message,
                          user_text = message, file_contents = []\<rparr>],
            chat_messages := chat_messages w @
                [ChatMessage (uuid4 env) (Some i) message response (now env 0)]\<rparr>))"
proof -
  let ?llm = "\<lparr>system_message = with_additional_context context base_system_message,
               user_text = message, file_contents = []\<rparr>"
  have ctx: "with_document_context (documents w) (Some i) base_system_message =
      base_system_message"
    using assms by (simp add: with_document_context_def)
  have run: "chat_with_document env (ChatRequest (Some i) message context) w =
      (case send_message env ?llm of
         Inl e \<Rightarrow> (Inl (HTTPException 500 (''Errore nella chat: '' @ e)),
                   w\<lparr>calls := calls w @ [LlmSend ?llm]\<rparr>)
       | Inr response \<Rightarrow>
           (Inr (ChatResponse message response (uuid4 env)),
            w\<lparr>calls := calls w @ [LlmSend ?llm],
              chat_messages := chat_messages w @
                [ChatMessage (uuid4 env) (Some i) message response (now env 0)]\<rparr>))"
    by (cases "send_message env ?llm") (simp_all add: chat_with_document_def ctx Let_def)
  have base: "with_additional_context None base_system_message = base_system_message"
    by (simp add: with_additional_context_def)
  show ?thesis
    unfolding run
    by (cases "send_message env ?llm") (simp_all add: base)
qed

theorem chat_unknown_document_witness:
  "find_one (documents sample_world) ''nowhere'' = None \<and>
   chat_with_document (sample_env (Inr []) (Inr ''reply'')) (ChatRequest (Some ''nowhere'') ''ciao'' None)
     sample_world =
     (Inr (ChatResponse ''ciao'' ''reply'' ''u1''),
      sample_world
        \<lparr>calls := [LlmSend \<lparr>system_message = base_system_message, user_text = ''ciao'',
                            file_contents = []\<rparr>],
         chat_messages :=
           [ChatMessage ''u1'' (Some ''nowhere'') ''ciao'' ''reply''
              ''2024-01-02T00:00:00+00:00'']\<rparr>)"
proof -
  have f: "find_one (documents sample_world) ''nowhere'' = None"
    by (simp add: sample_world_def sample_doc_def matches_id_def)
  have s: "send_message (sample_env (Inr []) (Inr ''reply''))
      \<lparr>system_message = with_additional_context None base_system_message,
       user_text = ''ciao'', file_contents = []\<rparr> = Inr ''reply''"
    by (simp add: sample_env_def)
  show ?thesis
    using f s chat_unknown_document [OF f, of "sample_env (Inr []) (Inr ''reply'')" "''ciao''" None]
    by (simp add: sample_env_def sample_world_def)
qed

subsection \<open>The size limit\<close>

text \<open>
  The guard of \<^verbatim>\<open>upload_document\<close> is \<^verbatim>\<open>len(contents) > 100 * 1024 * 1024\<close>: a file of
  exactly 100MB passes it. Such a PDF is parsed, and here also sent to the remote model
  and stored.
\<close>

theorem upload_at_limit_counterexample:
  "length limit_file = 100 * 1024 * 1024 \<and>
   status_code (fst (upload_document (sample_env (Inr []) (Inr ''reply''))
      (UploadFile ''a.pdf'' (Some ''application/pdf'') limit_file) sample_world)) = 200 \<and>
   calls (snd (upload_document (sample_env (Inr []) (Inr ''reply''))
      (UploadFile ''a.pdf'' (Some ''application/pdf'') limit_file) sample_world)) =
     [PdfParse limit_file, LlmSend (transcription_request limit_file ''application/pdf'')]"
  by (simp add: upload_document_def new_DocumentUpload_def extract_text_from_pdf_def
      extract_text_with_gemini_def sample_env_def sample_world_def length_limit_file strip_Nil)

text \<open>
  Claim C3, amended. An upload whose content is longer than 100MB (more than
  100 * 1024 * 1024 bytes) is answered 413, whatever its name and declared type, and the
  state after the request is the state before it: neither the local parser nor the
  remote transcription was called, and nothing was stored.
\<close>

theorem upload_over_limit:
  assumes "100 * 1024 * 1024 < length contents"
  shows "upload_document env (UploadFile fn ct contents) w =
           (Inl (HTTPException 413 ''File troppo grande. Massimo 100MB.''), w) \<and>
         status_code (fst (upload_document env (UploadFile fn ct contents) w)) = 413 \<and>
         calls (snd (upload_document env (UploadFile fn ct contents) w)) = calls w \<and>
         documents (snd (upload_document env (UploadFile fn ct contents) w)) = documents w"
  using assms by (simp add: upload_too_large)

theorem upload_over_limit_witness:
  "100 * 1024 * 1024 < length oversized_file \<and>
   upload_document (sample_env (Inr []) (Inr ''reply''))
      (UploadFile ''a.pdf'' (Some ''application/pdf'') oversized_file) sample_world =
     (Inl (HTTPException 413 ''File troppo grande. Massimo 100MB.''), sample_world)"
proof -
  have h: "100 * 1024 * 1024 < length oversized_file"
    by (simp add: length_oversized_file)
  show ?thesis
    using h upload_over_limit [OF h, of "sample_env (Inr []) (Inr ''reply'')" "''a.pdf''"
        "Some ''application/pdf''" sample_world]
    by simp
qed

subsection \<open>Unsupported content types\<close>

text \<open>
  The size guard comes before the content type is looked at: a text file that is too
  large is answered 413, not 400.
\<close>

theorem upload_unsupported_oversized_counterexample:
  "status_code (fst (upload_document (sample_env (Inr []) (Inr ''reply''))
      (UploadFile ''a.txt'' (Some ''text/plain'') oversized_file) sample_world)) = 413"
  by (simp add: upload_document_def length_oversized_file)

text \<open>
  Claim C4, amended. An upload of at most 100MB whose declared content type is neither
  \<^verbatim>\<open>application/pdf\<close> nor a type that starts with \<^verbatim>\<open>image/\<close> is answered 400, whatever
  its bytes are, and the state after the request is the state before it.
\<close>

theorem upload_unsupported_type:
  assumes "length contents \<le> 100 * 1024 * 1024"
    and "ct \<noteq> ''application/pdf''" and "\<not> startswith ct ''image/''"
  shows "upload_document env (UploadFile fn (Some ct) contents) w =
           (Inl (HTTPException 400 ''Tipo di file non supportato. Usa PDF o immagini.''), w) \<and>
         status_code (fst (upload_document env (UploadFile fn (Some ct) contents) w)) = 400"
proof -
  from assms(1) have "\<not> length contents > 100 * 1024 * 1024" by simp
  from upload_other_type [OF this assms(2) assms(3)] show ?thesis by simp
qed

theorem upload_unsupported_type_witness:
  "length [1, 2, 3 :: 8 word] \<le> 100 * 1024 * 1024 \<and>
   \<not> startswith ''text/plain'' ''image/'' \<and>
   upload_document (sample_env (Inr []) (Inr ''reply''))
      (UploadFile ''a.txt'' (Some ''text/plain'') [1, 2, 3]) sample_world =
     (Inl (HTTPException 400 ''Tipo di file non supportato. Usa PDF o immagini.''),
      sample_world)"
proof -
  have a: "length [1, 2, 3 :: 8 word] \<le> 100 * 1024 * 1024" by simp
  have b: "''text/plain'' \<noteq> ''application/pdf''" by simp
  have c: "\<not> startswith ''text/plain'' ''image/''" by (simp add: startswith_def)
  show ?thesis
    using a c upload_unsupported_type [OF a b c, of "sample_env (Inr []) (Inr ''reply'')"
        "''a.txt''" sample_world]
    by simp
qed

subsection \<open>Export\<close>

text \<open>
  A request without the \<^verbatim>\<open>content_type\<close> parameter is not refused: the handler runs with
  its default, \<^verbatim>\<open>"summary"\<close>, and a document that has a summary is exported.
\<close>

theorem export_missing_content_type_counterexample:
  "status_code (fst (export_pdf (sample_env (Inr []) (Inr ''reply'')) ''d4'' None
      sample_world)) = 200"
  by (simp add: export_pdf_def export_selection_def create_pdf_export_def sample_env_def
      sample_world_def sample_doc_def matches_id_def)

text \<open>
  Claim C6, amended. An unknown document identifier is answered 404, whatever the
  \<^verbatim>\<open>content_type\<close> parameter. For a known document, a \<^verbatim>\<open>content_type\<close> that is given and
  is none of summary, schema and full is answered 400, and so is a request whose chosen
  field is absent or empty. A request without the parameter is the request for the
  summary. None of these requests reaches the layout engine or changes the state.
\<close>

theorem export_pdf_errors:
  "(find_one (documents w) i = None \<longrightarrow>
      export_pdf env i p w = (Inl (HTTPException 404 ''Documento non trovato''), w)) \<and>
   (find_one (documents w) i = Some d \<and> c \<noteq> ''summary'' \<and> c \<noteq> ''schema'' \<and> c \<noteq> ''full'' \<longrightarrow>
      export_pdf env i (Some c) w = (Inl (HTTPException 400 ''Tipo di contenuto non valido''), w)) \<and>
   (find_one (documents w) i = Some d \<and> (summary_text d = None \<or> summary_text d = Some []) \<longrightarrow>
      export_pdf env i (Some ''summary'') w =
        (Inl (HTTPException 400 ''Contenuto non disponibile''), w)) \<and>
   (find_one (documents w) i = Some d \<and> (mindmap_schema d = None \<or> mindmap_schema d = Some []) \<longrightarrow>
      export_pdf env i (Some ''schema'') w =
        (Inl (HTTPException 400 ''Contenuto non disponibile''), w)) \<and>
   (find_one (documents w) i = Some d \<and> (extracted_text d = None \<or> extracted_text d = Some []) \<longrightarrow>
      export_pdf env i (Some ''full'') w =
        (Inl (HTTPException 400 ''Contenuto non disponibile''), w)) \<and>
   export_pdf env i None w = export_pdf env i (Some ''summary'') w"
  by (auto simp add: export_pdf_def export_selection_def)

theorem export_pdf_errors_witness:
  "find_one (documents sample_world) ''nowhere'' = None \<and>
   status_code (fst (export_pdf (sample_env (Inr []) (Inr ''reply'')) ''nowhere''
      (Some ''full'') sample_world)) = 404 \<and>
   find_one (documents sample_world) ''d1'' = Some (sample_doc ''d1'' (Some ''hello'')) \<and>
   status_code (fst (export_pdf (sample_env (Inr []) (Inr ''reply'')) ''d1''
      (Some ''pdf'') sample_world)) = 400 \<and>
   status_code (fst (export_pdf (sample_env (Inr []) (Inr ''reply'')) ''d1''
      (Some ''summary'') sample_world)) = 400 \<and>
   status_code (fst (export_pdf (sample_env (Inr []) (Inr ''reply'')) ''d1''
      None sample_world)) = 400"
proof -
  have f0: "find_one (documents sample_world) ''nowhere'' = None"
    by (simp add: sample_world_def sample_doc_def matches_id_def)
  have f1: "find_one (documents sample_world) ''d1'' = Some (sample_doc ''d1'' (Some ''hello''))"
    by (simp add: sample_world_def sample_doc_def matches_id_def)
  have s: "summary_text (sample_doc ''d1'' (Some ''hello'')) = None"
    by (simp add: sample_doc_def)
  show ?thesis
    using f0 f1 s
      export_pdf_errors [of sample_world "''nowhere''" "sample_env (Inr []) (Inr ''reply'')"
        "Some ''full''" "sample_doc ''d1'' (Some ''hello'')" "''pdf''"]
      export_pdf_errors [of sample_world "''d1''" "sample_env (Inr []) (Inr ''reply'')"
        "None" "sample_doc ''d1'' (Some ''hello'')" "''pdf''"]
    by simp
qed

subsection \<open>What an update writes\<close>

lemma find_one_split:
  "find_one ds i = Some d \<Longrightarrow>
   \<exists>pre post. ds = pre @ d # post \<and> (\<forall>x\<in>set pre. \<not> matches_id i x) \<and> matches_id i d"
proof (induction ds)
  case Nil
  then show ?case by simp
next
  case (Cons a ds)
  show ?case
  proof (cases "matches_id i a")
    case True
    with Cons.prems have "a = d" by simp
    with True have
      "a # ds = [] @ d # ds \<and> (\<forall>x\<in>set []. \<not> matches_id i x) \<and> matches_id i d"
      by simp
    then show ?thesis by blast
  next
    case False
    with Cons.prems have "find_one ds i = Some d" by simp
    from Cons.IH [OF this] obtain pre post where
      "ds = pre @ d # post" "\<forall>x\<in>set pre. \<not> matches_id i x" "matches_id i d"
      by blast
    with False have
      "a # ds = (a # pre) @ d # post \<and> (\<forall>x\<in>set (a # pre). \<not> matches_id i x) \<and>
       matches_id i d"
      by simp
    then show ?thesis by blast
  qed
qed

lemma update_one_split:
  "\<forall>x\<in>set pre. \<not> matches_id i x \<Longrightarrow> matches_id i d \<Longrightarrow>
   update_one (pre @ d # post) i f = pre @ f d # post"
  by (induction pre) auto

lemma find_one_append:
  "\<forall>x\<in>set pre. \<not> matches_id i x \<Longrightarrow> matches_id i d \<Longrightarrow>
   find_one (pre @ d # post) i = Some d"
  by (induction pre) auto

lemma update_one_found:
  assumes "find_one ds i = Some d" and "id' (f d) = id' d"
  shows "\<exists>pre post. ds = pre @ d # post \<and> (\<forall>x\<in>set pre. \<not> matches_id i x) \<and>
           matches_id i d \<and>
           update_one ds i f = pre @ f d # post \<and>
           find_one (update_one ds i f) i = Some (f d)"
proof -
  from find_one_split [OF assms(1)] obtain pre post where
    s: "ds = pre @ d # post" "\<forall>x\<in>set pre. \<not> matches_id i x" "matches_id i d"
    by blast
  have u: "update_one ds i f = pre @ f d # post"
    using s by (simp add: update_one_split)
  have "matches_id i (f d)"
    using s(3) assms(2) by (simp add: matches_id_def)
  then have "find_one (pre @ f d # post) i = Some (f d)"
    using s(2) by (simp add: find_one_append)
  with s u show ?thesis by auto
qed

lemma generate_summary_Inr:
  assumes "generate_summary env (SummaryRequest i st al) w = (Inr r, w')"
  shows "\<exists>d s. find_one (documents w) i = Some d \<and> r = SummaryResponse i s st al \<and>
           documents w' = update_one (documents w) i
              (\<lambda>d. d\<lparr>summary_text := Some s, summary_type := Some st,
                      updated_at := now env 0\<rparr>) \<and>
           chat_messages w' = chat_messages w"
proof (cases "find_one (documents w) i")
  case None
  with assms show ?thesis by (simp add: generate_summary_def)
next
  case (Some d)
  show ?thesis
  proof (cases "extracted_text d")
    case None
    with Some assms show ?thesis by (simp add: generate_summary_def)
  next
    case t: (Some tx)
    show ?thesis
    proof (cases "tx = []")
      case True
      with Some t assms show ?thesis by (simp add: generate_summary_def)
    next
      case False
      with Some t assms show ?thesis
        by (auto simp add: generate_summary_def generate_summary_with_gemini_def Let_def
            split: sum.splits)
    qed
  qed
qed

lemma generate_schema_Inr:
  assumes "generate_schema env (SchemaRequest i sct) w = (Inr r, w')"
  shows "\<exists>d s. find_one (documents w) i = Some d \<and> r = SchemaResponse i s sct \<and>
           documents w' = update_one (documents w) i
              (\<lambda>d. d\<lparr>mindmap_schema := Some s, schema_type := Some sct,
                      updated_at := now env 0\<rparr>) \<and>
           chat_messages w' = chat_messages w"
proof (cases "find_one (documents w) i")
  case None
  with assms show ?thesis by (simp add: generate_schema_def)
next
  case (Some d)
  show ?thesis
  proof (cases "extracted_text d")
    case None
    with Some assms show ?thesis by (simp add: generate_schema_def)
  next
    case t: (Some tx)
    show ?thesis
    proof (cases "tx = []")
      case True
      with Some t assms show ?thesis by (simp add: generate_schema_def)
    next
      case False
      with Some t assms show ?thesis
        by (auto simp add: generate_schema_def generate_schema_with_gemini_def Let_def
            split: sum.splits)
    qed
  qed
qed

lemma generate_summary_writes:
  assumes "generate_summary env (SummaryRequest i st al) w = (Inr r, w')"
  shows "\<exists>pre d post s.
           documents w = pre @ d # post \<and> (\<forall>x\<in>set pre. \<not> matches_id i x) \<and>
           matches_id i d \<and> r = SummaryResponse i s st al \<and>
           find_one (documents w) i = Some d \<and>
           documents w' =
             pre @ d\<lparr>summary_text := Some s, summary_type := Some st,
                      updated_at := now env 0\<rparr> # post \<and>
           find_one (documents w') i =
             Some (d\<lparr>summary_text := Some s, summary_type := Some st,
                     updated_at := now env 0\<rparr>) \<and>
           chat_messages w' = chat_messages w"
proof -
  from generate_summary_Inr [OF assms] obtain d s where
    g: "find_one (documents w) i = Some d" "r = SummaryResponse i s st al"
       "documents w' = update_one (documents w) i
              (\<lambda>d. d\<lparr>summary_text := Some s, summary_type := Some st,
                      updated_at := now env 0\<rparr>)"
       "chat_messages w' = chat_messages w"
    by blast
  let ?f = "\<lambda>d :: DocumentUpload. d\<lparr>summary_text := Some s, summary_type := Some st,
                      updated_at := now env 0\<rparr>"
  have "id' (?f d) = id' d" by simp
  from update_one_found [OF g(1), of ?f, OF this] obtain pre post where
    "documents w = pre @ d # post" "\<forall>x\<in>set pre. \<not> matches_id i x" "matches_id i d"
    "update_one (documents w) i ?f = pre @ ?f d # post"
    "find_one (update_one (documents w) i ?f) i = Some (?f d)"
    by blast
  with g show ?thesis by auto
qed

lemma generate_schema_writes:
  assumes "generate_schema env (SchemaRequest i sct) w = (Inr r, w')"
  shows "\<exists>pre d post s.
           documents w = pre @ d # post \<and> (\<forall>x\<in>set pre. \<not> matches_id i x) \<and>
           matches_id i d \<and> r = SchemaResponse i s sct \<and>
           find_one (documents w) i = Some d \<and>
           documents w' =
             pre @ d\<lparr>mindmap_schema := Some s, schema_type := Some sct,
                      updated_at := now env 0\<rparr> # post \<and>
           find_one (documents w') i =
             Some (d\<lparr>mindmap_schema := Some s, schema_type := Some sct,
                     updated_at := now env 0\<rparr>) \<and>
           chat_messages w' = chat_messages w"
proof -
  from generate_schema_Inr [OF assms] obtain d s where
    g: "find_one (documents w) i = Some d" "r = SchemaResponse i s sct"
       "documents w' = update_one (documents w) i
              (\<lambda>d. d\<lparr>mindmap_schema := Some s, schema_type := Some sct,
                      updated_at := now env 0\<rparr>)"
       "chat_messages w' = chat_messages w"
    by blast
  let ?f = "\<lambda>d :: DocumentUpload. d\<lparr>mindmap_schema := Some s, schema_type := Some sct,
                      updated_at := now env 0\<rparr>"
  have "id' (?f d) = id' d" by simp
  from update_one_found [OF g(1), of ?f, OF this] obtain pre post where
    "documents w = pre @ d # post" "\<forall>x\<in>set pre. \<not> matches_id i x" "matches_id i d"
    "update_one (documents w) i ?f = pre @ ?f d # post"
    "find_one (update_one (documents w) i ?f) i = Some (?f d)"
    by blast
  with g show ?thesis by auto
qed

lemma summary_then_schema:
  assumes a: "generate_summary env (SummaryRequest i st al) w =
                (Inr (SummaryResponse i s st al), w1)"
    and b: "generate_schema env2 (SchemaRequest i sct) w1 = (Inr (SchemaResponse i sc sct), w2)"
  shows "\<exists>d0 d. find_one (documents w) i = Some d0 \<and> find_one (documents w2) i = Some d \<and>
           summary_text d = Some s \<and> summary_type d = Some st \<and>
           mindmap_schema d = Some sc \<and> schema_type d = Some sct \<and>
           extracted_text d = extracted_text d0"
proof -
  from generate_summary_writes [OF a] obtain d where
    f0: "find_one (documents w) i = Some d" and
    f1: "find_one (documents w1) i =
           Some (d\<lparr>summary_text := Some s, summary_type := Some st,
                   updated_at := now env 0\<rparr>)"
    by auto
  from generate_schema_writes [OF b] obtain d2 where
    f2: "find_one (documents w1) i = Some d2"
        "find_one (documents w2) i =
           Some (d2\<lparr>mindmap_schema := Some sc, schema_type := Some sct,
                    updated_at := now env2 0\<rparr>)"
    by auto
  from f1 f2(1) have "d2 = d\<lparr>summary_text := Some s, summary_type := Some st,
                   updated_at := now env 0\<rparr>"
    by simp
  with f0 f2(2) show ?thesis by simp
qed

lemma schema_then_summary:
  assumes a: "generate_schema env (SchemaRequest i sct) w = (Inr (SchemaResponse i sc sct), w1)"
    and b: "generate_summary env2 (SummaryRequest i st al) w1 =
              (Inr (SummaryResponse i s st al), w2)"
  shows "\<exists>d0 d. find_one (documents w) i = Some d0 \<and> find_one (documents w2) i = Some d \<and>
           summary_text d = Some s \<and> summary_type d = Some st \<and>
           mindmap_schema d = Some sc \<and> schema_type d = Some sct \<and>
           extracted_text d = extracted_text d0"
proof -
  from generate_schema_writes [OF a] obtain d where
    f0: "find_one (documents w) i = Some d" and
    f1: "find_one (documents w1) i =
           Some (d\<lparr>mindmap_schema := Some sc, schema_type := Some sct,
                   updated_at := now env 0\<rparr>)"
    by auto
  from generate_summary_writes [OF b] obtain d2 where
    f2: "find_one (documents w1) i = Some d2"
        "find_one (documents w2) i =
           Some (d2\<lparr>summary_text := Some s, summary_type := Some st,
                    updated_at := now env2 0\<rparr>)"
    by auto
  from f1 f2(1) have "d2 = d\<lparr>mindmap_schema := Some sc, schema_type := Some sct,
                   updated_at := now env 0\<rparr>"
    by simp
  with f0 f2(2) show ?thesis by simp
qed

text \<open>
  Claim C2. A successful generate-summary replaces the first stored document with the
  identifier by a copy in which \<open>summary_text\<close>, \<open>summary_type\<close> and \<open>updated_at\<close> are
  set; every other field of it (\<open>mindmap_schema\<close>, \<open>schema_type\<close>, \<open>extracted_text\<close>
  among them), every other document and the chat turns are as before. A successful
  generate-schema does the same with \<open>mindmap_schema\<close>, \<open>schema_type\<close> and
  \<open>updated_at\<close>. When both succeed on one document, one after the other in either
  order, the document holds the summary of the one and the schema of the other, and the
  extracted text it had.
\<close>

theorem summary_and_schema_writes:
  "(generate_summary env (SummaryRequest i st al) w = (Inr r, w') \<longrightarrow>
      (\<exists>pre d post s.
          documents w = pre @ d # post \<and> (\<forall>x\<in>set pre. \<not> matches_id i x) \<and>
          matches_id i d \<and> r = SummaryResponse i s st al \<and>
          documents w' =
            pre @ d\<lparr>summary_text := Some s, summary_type := Some st,
                     updated_at := now env 0\<rparr> # post \<and>
          chat_messages w' = chat_messages w)) \<and>
   (generate_schema env (SchemaRequest i sct) w = (Inr r2, w'') \<longrightarrow>
      (\<exists>pre d post s.
          documents w = pre @ d # post \<and> (\<forall>x\<in>set pre. \<not> matches_id i x) \<and>
          matches_id i d \<and> r2 = SchemaResponse i s sct \<and>
          documents w'' =
            pre @ d\<lparr>mindmap_schema := Some s, schema_type := Some sct,
                     updated_at := now env 0\<rparr> # post \<and>
          chat_messages w'' = chat_messages w)) \<and>
   (generate_summary env (SummaryRequest i st al) w = (Inr (SummaryResponse i s1 st al), w1) \<and>
    generate_schema env2 (SchemaRequest i sct) w1 = (Inr (SchemaResponse i s2 sct), w2) \<longrightarrow>
      (\<exists>d0 d. find_one (documents w) i = Some d0 \<and> find_one (documents w2) i = Some d \<and>
           summary_text d = Some s1 \<and> summary_type d = Some st \<and>
           mindmap_schema d = Some s2 \<and> schema_type d = Some sct \<and>
           extracted_text d = extracted_text d0)) \<and>
   (generate_schema env (SchemaRequest i sct) w = (Inr (SchemaResponse i s2 sct), w3) \<and>
    generate_summary env2 (SummaryRequest i st al) w3 = (Inr (SummaryResponse i s1 st al), w4) \<longrightarrow>
      (\<exists>d0 d. find_one (documents w) i = Some d0 \<and> find_one (documents w4) i = Some d \<and>
           summary_text d = Some s1 \<and> summary_type d = Some st \<and>
           mindmap_schema d = Some s2 \<and> schema_type d = Some sct \<and>
           extracted_text d = extracted_text d0))"
proof (intro conjI impI)
  assume "generate_summary env (SummaryRequest i st al) w = (Inr r, w')"
  from generate_summary_writes [OF this]
  show "\<exists>pre d post s.
          documents w = pre @ d # post \<and> (\<forall>x\<in>set pre. \<not> matches_id i x) \<and>
          matches_id i d \<and> r = SummaryResponse i s st al \<and>
          documents w' =
            pre @ d\<lparr>summary_text := Some s, summary_type := Some st,
                     updated_at := now env 0\<rparr> # post \<and>
          chat_messages w' = chat_messages w"
    by blast
next
  assume "generate_schema env (SchemaRequest i sct) w = (Inr r2, w'')"
  from generate_schema_writes [OF this]
  show "\<exists>pre d post s.
          documents w = pre @ d # post \<and> (\<forall>x\<in>set pre. \<not> matches_id i x) \<and>
          matches_id i d \<and> r2 = SchemaResponse i s sct \<and>
          documents w'' =
            pre @ d\<lparr>mindmap_schema := Some s, schema_type := Some sct,
                     updated_at := now env 0\<rparr> # post \<and>
          chat_messages w'' = chat_messages w"
    by blast
next
  assume "generate_summary env (SummaryRequest i st al) w = (Inr (SummaryResponse i s1 st al), w1) \<and>
    generate_schema env2 (SchemaRequest i sct) w1 = (Inr (SchemaResponse i s2 sct), w2)"
  then show "\<exists>d0 d. find_one (documents w) i = Some d0 \<and> find_one (documents w2) i = Some d \<and>
           summary_text d = Some s1 \<and> summary_type d = Some st \<and>
           mindmap_schema d = Some s2 \<and> schema_type d = Some sct \<and>
           extracted_text d = extracted_text d0"
    using summary_then_schema by blast
next
  assume "generate_schema env (SchemaRequest i sct) w = (Inr (SchemaResponse i s2 sct), w3) \<and>
    generate_summary env2 (SummaryRequest i st al) w3 = (Inr (SummaryResponse i s1 st al), w4)"
  then show "\<exists>d0 d. find_one (documents w) i = Some d0 \<and> find_one (documents w4) i = Some d \<and>
           summary_text d = Some s1 \<and> summary_type d = Some st \<and>
           mindmap_schema d = Some s2 \<and> schema_type d = Some sct \<and>
           extracted_text d = extracted_text d0"
    using schema_then_summary by blast
qed

theorem summary_and_schema_writes_witness:
  "fst (generate_summary (sample_env (Inr []) (Inr ''S''))
          (SummaryRequest ''d1'' ''breve'' ''alta'') sample_world) =
     Inr (SummaryResponse ''d1'' ''S'' ''breve'' ''alta'') \<and>
   fst (generate_schema (sample_env (Inr []) (Inr ''M'')) (SchemaRequest ''d1'' ''cascata'')
          (snd (generate_summary (sample_env (Inr []) (Inr ''S''))
                  (SummaryRequest ''d1'' ''breve'' ''alta'') sample_world))) =
     Inr (SchemaResponse ''d1'' ''M'' ''cascata'') \<and>
   (\<exists>d. find_one
          (documents
            (snd (generate_schema (sample_env (Inr []) (Inr ''M''))
                    (SchemaRequest ''d1'' ''cascata'')
                    (snd (generate_summary (sample_env (Inr []) (Inr ''S''))
                            (SummaryRequest ''d1'' ''breve'' ''alta'') sample_world)))))
          ''d1'' = Some d \<and>
        summary_text d = Some ''S'' \<and> mindmap_schema d = Some ''M'' \<and>
        extracted_text d = Some ''hello'')"
proof -
  let ?w1 = "snd (generate_summary (sample_env (Inr []) (Inr ''S''))
                    (SummaryRequest ''d1'' ''breve'' ''alta'') sample_world)"
  let ?w2 = "snd (generate_schema (sample_env (Inr []) (Inr ''M''))
                    (SchemaRequest ''d1'' ''cascata'') ?w1)"
  have a: "fst (generate_summary (sample_env (Inr []) (Inr ''S''))
          (SummaryRequest ''d1'' ''breve'' ''alta'') sample_world) =
     Inr (SummaryResponse ''d1'' ''S'' ''breve'' ''alta'')"
    by (simp add: generate_summary_def generate_summary_with_gemini_def sample_env_def
        sample_world_def sample_doc_def matches_id_def)
  have d1: "find_one (documents ?w1) ''d1'' =
      Some ((sample_doc ''d1'' (Some ''hello''))
              \<lparr>summary_text := Some ''S'', summary_type := Some ''breve'',
               updated_at := ''2024-01-02T00:00:00+00:00''\<rparr>)"
    by (simp add: generate_summary_def generate_summary_with_gemini_def sample_env_def
        sample_world_def sample_doc_def matches_id_def)
  have b: "fst (generate_schema (sample_env (Inr []) (Inr ''M''))
          (SchemaRequest ''d1'' ''cascata'') ?w1) =
     Inr (SchemaResponse ''d1'' ''M'' ''cascata'')"
    using d1
    by (simp add: generate_schema_def generate_schema_with_gemini_def sample_env_def
        sample_doc_def)
  have a': "generate_summary (sample_env (Inr []) (Inr ''S''))
          (SummaryRequest ''d1'' ''breve'' ''alta'') sample_world =
     (Inr (SummaryResponse ''d1'' ''S'' ''breve'' ''alta''), ?w1)"
    using a by (simp add: prod_eq_iff)
  have b': "generate_schema (sample_env (Inr []) (Inr ''M''))
          (SchemaRequest ''d1'' ''cascata'') ?w1 =
     (Inr (SchemaResponse ''d1'' ''M'' ''cascata''), ?w2)"
    using b by (simp add: prod_eq_iff)
  have f: "find_one (documents sample_world) ''d1'' = Some (sample_doc ''d1'' (Some ''hello''))"
    by (simp add: sample_world_def sample_doc_def matches_id_def)
  have t: "extracted_text (sample_doc ''d1'' (Some ''hello'')) = Some ''hello''"
    by (simp add: sample_doc_def)
  from summary_and_schema_writes
    [of "sample_env (Inr []) (Inr ''S'')" "''d1''" "''breve''" "''alta''" sample_world
      "SummaryResponse ''d1'' ''S'' ''breve'' ''alta''" ?w1
      "''cascata''" "SchemaResponse ''d1'' ''M'' ''cascata''" ?w2
      "''S''" ?w1 "sample_env (Inr []) (Inr ''M'')" "''M''" ?w2]
    a' b'
  obtain d0 d where
    "find_one (documents sample_world) ''d1'' = Some d0"
    "find_one (documents ?w2) ''d1'' = Some d"
    "summary_text d = Some ''S''" "mindmap_schema d = Some ''M''"
    "extracted_text d = extracted_text d0"
    by blast
  with f t have "find_one (documents ?w2) ''d1'' = Some d \<and>
        summary_text d = Some ''S'' \<and> mindmap_schema d = Some ''M'' \<and>
        extracted_text d = Some ''hello''"
    by simp
  then have "\<exists>d. find_one (documents ?w2) ''d1'' = Some d \<and>
        summary_text d = Some ''S'' \<and> mindmap_schema d = Some ''M'' \<and>
        extracted_text d = Some ''hello''"
    by blast
  with a b show ?thesis by blast
qed

subsection \<open>The fallback to the remote transcription\<close>

lemma sample_page_strip: "strip (sample_page @ ''\<newline>'') = sample_page"
  by (simp add: strip_def isspace_def sample_page_def)

lemma length_sample_page: "length sample_page = 59"
  by (simp add: sample_page_def)

lemma extract_text_from_pdf_world:
  "snd (extract_text_from_pdf env contents w) = w\<lparr>calls := calls w @ [PdfParse contents]\<rparr>"
  by (simp add: extract_text_from_pdf_def)

lemma extract_text_from_pdf_raises:
  "PdfReader env contents = Inl e \<Longrightarrow> fst (extract_text_from_pdf env contents w) = []"
  "PdfReader env contents = Inr pages \<Longrightarrow> extract_pages pages [] = Inl e \<Longrightarrow>
   fst (extract_text_from_pdf env contents w) = []"
  by (simp_all add: extract_text_from_pdf_def)

lemma upload_pdf_calls:
  "calls (snd (upload_document env (UploadFile fn (Some ''application/pdf'') contents) w)) =
     calls w @
     (if length contents > 100 * 1024 * 1024 then []
      else if fst (extract_text_from_pdf env contents w) = [] \<or>
              length (strip (fst (extract_text_from_pdf env contents w))) < 50
        then [PdfParse contents, LlmSend (transcription_request contents ''application/pdf'')]
      else [PdfParse contents])"
proof (cases "length contents > 100 * 1024 * 1024")
  case True
  then show ?thesis by (simp add: upload_too_large)
next
  case False
  obtain t w1 where e: "extract_text_from_pdf env contents w = (t, w1)"
    by (cases "extract_text_from_pdf env contents w")
  then have w1: "w1 = w\<lparr>calls := calls w @ [PdfParse contents]\<rparr>"
    by (simp add: extract_text_from_pdf_def)
  show ?thesis
  proof (cases "t = [] \<or> length (strip t) < 50")
    case True
    with False e w1 show ?thesis
      by (cases "send_message env (transcription_request contents ''application/pdf'')")
         (auto simp add: upload_document_def new_DocumentUpload_def
            extract_text_with_gemini_def)
  next
    case f: False
    with False e w1 show ?thesis
      by (simp add: upload_document_def new_DocumentUpload_def)
  qed
qed

lemma upload_pdf_fallback_response:
  assumes small: "\<not> length contents > 100 * 1024 * 1024"
    and poor: "fst (extract_text_from_pdf env contents w) = [] \<or>
               length (strip (fst (extract_text_from_pdf env contents w))) < 50"
  shows "fst (upload_document env (UploadFile fn (Some ''application/pdf'') contents) w) =
     (case send_message env (transcription_request contents ''application/pdf'') of
        Inl e \<Rightarrow> Inl (HTTPException 500 (''Errore nell'estrazione del testo: '' @ e))
      | Inr t \<Rightarrow>
          if t = [] then Inl (HTTPException 400 ''Impossibile estrarre testo dal documento.'')
          else Inr (UploadResponse (uuid4 env) fn
                      (if length t > 500 then take 500 t @ ''...'' else t) (length t)
                      ''Documento caricato e analizzato con successo''))"
proof -
  obtain t w1 where e: "extract_text_from_pdf env contents w = (t, w1)"
    by (cases "extract_text_from_pdf env contents w")
  with poor have p: "t = [] \<or> length (strip t) < 50" by simp
  show ?thesis
  proof (cases "send_message env (transcription_request contents ''application/pdf'')")
    case (Inl m)
    with small e p show ?thesis
      by (auto simp add: upload_document_def new_DocumentUpload_def
          extract_text_with_gemini_def)
  next
    case (Inr r)
    with small e p show ?thesis
      by (cases "r = []")
         (auto simp add: upload_document_def new_DocumentUpload_def
            extract_text_with_gemini_def)
  qed
qed

text \<open>
  Claim C1. Take an upload declared \<^verbatim>\<open>application/pdf\<close>, let \<open>r\<close> be what the local
  parser returns for its bytes and \<open>new\<close> the external calls the request makes.
  \<^item> The remote transcription is called if and only if the local parser was run and \<open>r\<close>
    is empty or, stripped, shorter than 50 characters; the call carries the uploaded
    bytes themselves.
  \<^item> An upload within the size limit does run the parser, so that there the remote
    transcription is called if and only if \<open>r\<close> is empty or too short; an upload beyond
    the limit makes no call at all.
  \<^item> When the reader or a page raises, \<open>r\<close> is the empty string, the remote
    transcription is called (within the size limit), and the response is the one the
    remote call determines: the parser's exception is not propagated.
\<close>

theorem pdf_upload_fallback:
  "let r = fst (extract_text_from_pdf env contents w);
       w' = snd (upload_document env (UploadFile fn (Some ''application/pdf'') contents) w);
       new = drop (length (calls w)) (calls w')
   in ((\<exists>q. LlmSend q \<in> set new) \<longleftrightarrow>
         PdfParse contents \<in> set new \<and> (r = [] \<or> length (strip r) < 50)) \<and>
      (\<forall>q. LlmSend q \<in> set new \<longrightarrow>
         q = transcription_request contents ''application/pdf'' \<and>
         file_contents q = [(contents, ''application/pdf'')]) \<and>
      (length contents \<le> 100 * 1024 * 1024 \<longrightarrow>
         PdfParse contents \<in> set new \<and>
         ((\<exists>q. LlmSend q \<in> set new) \<longleftrightarrow> r = [] \<or> length (strip r) < 50)) \<and>
      (100 * 1024 * 1024 < length contents \<longrightarrow> new = []) \<and>
      ((\<exists>e. PdfReader env contents = Inl e) \<or>
       (\<exists>pages e. PdfReader env contents = Inr pages \<and> extract_pages pages [] = Inl e) \<longrightarrow>
         r = [] \<and>
         (length contents \<le> 100 * 1024 * 1024 \<longrightarrow>
            LlmSend (transcription_request contents ''application/pdf'') \<in> set new \<and>
            fst (upload_document env (UploadFile fn (Some ''application/pdf'') contents) w) =
              (case send_message env (transcription_request contents ''application/pdf'') of
                 Inl e \<Rightarrow> Inl (HTTPException 500 (''Errore nell'estrazione del testo: '' @ e))
               | Inr t \<Rightarrow>
                   if t = [] then
                     Inl (HTTPException 400 ''Impossibile estrarre testo dal documento.'')
                   else
                     Inr (UploadResponse (uuid4 env) fn
                            (if length t > 500 then take 500 t @ ''...'' else t) (length t)
                            ''Documento caricato e analizzato con successo''))))"
proof -
  define r where "r = fst (extract_text_from_pdf env contents w)"
  define new where "new = drop (length (calls w))
    (calls (snd (upload_document env (UploadFile fn (Some ''application/pdf'') contents) w)))"
  have new: "new =
     (if length contents > 100 * 1024 * 1024 then []
      else if r = [] \<or> length (strip r) < 50
        then [PdfParse contents, LlmSend (transcription_request contents ''application/pdf'')]
      else [PdfParse contents])"
    unfolding new_def r_def by (simp add: upload_pdf_calls)
  have a: "(\<exists>q. LlmSend q \<in> set new) \<longleftrightarrow>
         PdfParse contents \<in> set new \<and> (r = [] \<or> length (strip r) < 50)"
    by (auto simp add: new)
  have b: "\<forall>q. LlmSend q \<in> set new \<longrightarrow>
         q = transcription_request contents ''application/pdf'' \<and>
         file_contents q = [(contents, ''application/pdf'')]"
    by (auto simp add: new transcription_request_def split: if_splits)
  have c: "length contents \<le> 100 * 1024 * 1024 \<longrightarrow>
         PdfParse contents \<in> set new \<and>
         ((\<exists>q. LlmSend q \<in> set new) \<longleftrightarrow> r = [] \<or> length (strip r) < 50)"
    by (auto simp add: new)
  have d: "100 * 1024 * 1024 < length contents \<longrightarrow> new = []"
    by (simp add: new)
  have e: "(\<exists>e. PdfReader env contents = Inl e) \<or>
       (\<exists>pages e. PdfReader env contents = Inr pages \<and> extract_pages pages [] = Inl e) \<longrightarrow>
         r = [] \<and>
         (length contents \<le> 100 * 1024 * 1024 \<longrightarrow>
            LlmSend (transcription_request contents ''application/pdf'') \<in> set new \<and>
            fst (upload_document env (UploadFile fn (Some ''application/pdf'') contents) w) =
              (case send_message env (transcription_request contents ''application/pdf'') of
                 Inl e \<Rightarrow> Inl (HTTPException 500 (''Errore nell'estrazione del testo: '' @ e))
               | Inr t \<Rightarrow>
                   if t = [] then
                     Inl (HTTPException 400 ''Impossibile estrarre testo dal documento.'')
                   else
                     Inr (UploadResponse (uuid4 env) fn
                            (if length t > 500 then take 500 t @ ''...'' else t) (length t)
                            ''Documento caricato e analizzato con successo'')))"
  proof (intro impI)
    assume "(\<exists>e. PdfReader env contents = Inl e) \<or>
       (\<exists>pages e. PdfReader env contents = Inr pages \<and> extract_pages pages [] = Inl e)"
    then have empty: "r = []"
      unfolding r_def by (auto simp add: extract_text_from_pdf_raises)
    have "length contents \<le> 100 * 1024 * 1024 \<longrightarrow>
            LlmSend (transcription_request contents ''application/pdf'') \<in> set new \<and>
            fst (upload_document env (UploadFile fn (Some ''application/pdf'') contents) w) =
              (case send_message env (transcription_request contents ''application/pdf'') of
                 Inl e \<Rightarrow> Inl (HTTPException 500 (''Errore nell'estrazione del testo: '' @ e))
               | Inr t \<Rightarrow>
                   if t = [] then
                     Inl (HTTPException 400 ''Impossibile estrarre testo dal documento.'')
                   else
                     Inr (UploadResponse (uuid4 env) fn
                            (if length t > 500 then take 500 t @ ''...'' else t) (length t)
                            ''Documento caricato e analizzato con successo''))"
    proof
      assume s: "length contents \<le> 100 * 1024 * 1024"
      then have small: "\<not> length contents > 100 * 1024 * 1024" by simp
      have poor: "fst (extract_text_from_pdf env contents w) = [] \<or>
               length (strip (fst (extract_text_from_pdf env contents w))) < 50"
        using empty by (simp add: r_def)
      have "LlmSend (transcription_request contents ''application/pdf'') \<in> set new"
        using small empty by (simp add: new)
      with upload_pdf_fallback_response [OF small poor, of fn]
      show "LlmSend (transcription_request contents ''application/pdf'') \<in> set new \<and>
            fst (upload_document env (UploadFile fn (Some ''application/pdf'') contents) w) =
              (case send_message env (transcription_request contents ''application/pdf'') of
                 Inl e \<Rightarrow> Inl (HTTPException 500 (''Errore nell'estrazione del testo: '' @ e))
               | Inr t \<Rightarrow>
                   if t = [] then
                     Inl (HTTPException 400 ''Impossibile estrarre testo dal documento.'')
                   else
                     Inr (UploadResponse (uuid4 env) fn
                            (if length t > 500 then take 500 t @ ''...'' else t) (length t)
                            ''Documento caricato e analizzato con successo''))"
        by simp
    qed
    with empty show "r = [] \<and>
         (length contents \<le> 100 * 1024 * 1024 \<longrightarrow>
            LlmSend (transcription_request contents ''application/pdf'') \<in> set new \<and>
            fst (upload_document env (UploadFile fn (Some ''application/pdf'') contents) w) =
              (case send_message env (transcription_request contents ''application/pdf'') of
                 Inl e \<Rightarrow> Inl (HTTPException 500 (''Errore nell'estrazione del testo: '' @ e))
               | Inr t \<Rightarrow>
                   if t = [] then
                     Inl (HTTPException 400 ''Impossibile estrarre testo dal documento.'')
                   else
                     Inr (UploadResponse (uuid4 env) fn
                            (if length t > 500 then take 500 t @ ''...'' else t) (length t)
                            ''Documento caricato e analizzato con successo'')))"
      by simp
  qed
  from a b c d e show ?thesis
    unfolding Let_def r_def new_def by blast
qed

theorem pdf_upload_fallback_witness:
  "PdfReader (sample_env (Inl ''EOF marker not found'') (Inr ''scanned text'')) [1, 2, 3] =
     Inl ''EOF marker not found'' \<and>
   length [1, 2, 3 :: 8 word] \<le> 100 * 1024 * 1024 \<and>
   fst (extract_text_from_pdf (sample_env (Inl ''EOF marker not found'') (Inr ''scanned text''))
          [1, 2, 3] sample_world) = [] \<and>
   LlmSend (transcription_request [1, 2, 3] ''application/pdf'') \<in>
     set (drop (length (calls sample_world))
            (calls (snd (upload_document
                           (sample_env (Inl ''EOF marker not found'') (Inr ''scanned text''))
                           (UploadFile ''a.pdf'' (Some ''application/pdf'') [1, 2, 3])
                           sample_world)))) \<and>
   fst (upload_document (sample_env (Inl ''EOF marker not found'') (Inr ''scanned text''))
          (UploadFile ''a.pdf'' (Some ''application/pdf'') [1, 2, 3]) sample_world) =
     Inr (UploadResponse ''u1'' ''a.pdf'' ''scanned text'' 12
            ''Documento caricato e analizzato con successo'')"
proof -
  have p: "PdfReader (sample_env (Inl ''EOF marker not found'') (Inr ''scanned text''))
      [1, 2, 3] = Inl ''EOF marker not found''"
    by (simp add: sample_env_def)
  have l: "length [1, 2, 3 :: 8 word] \<le> 100 * 1024 * 1024" by simp
  have s: "send_message (sample_env (Inl ''EOF marker not found'') (Inr ''scanned text''))
      (transcription_request [1, 2, 3] ''application/pdf'') = Inr ''scanned text''"
    by (simp add: sample_env_def)
  have u: "uuid4 (sample_env (Inl ''EOF marker not found'') (Inr ''scanned text'')) = ''u1''"
    by (simp add: sample_env_def)
  show ?thesis
    using p l s u
      pdf_upload_fallback [of "sample_env (Inl ''EOF marker not found'') (Inr ''scanned text'')"
        "[1, 2, 3]" sample_world "''a.pdf''"]
    by (simp add: Let_def)
qed

text \<open>
  The other side of the condition, on a page of 59 characters: the local text is kept
  and no remote call is made.
\<close>

lemma pdf_upload_local_text:
  "upload_document (sample_env (Inr [Inr sample_page]) (Inr ''unused''))
     (UploadFile ''a.pdf'' (Some ''application/pdf'') [1, 2, 3]) sample_world =
   (Inr (UploadResponse ''u1'' ''a.pdf'' sample_page 59
           ''Documento caricato e analizzato con successo''),
    sample_world
      \<lparr>calls := [PdfParse [1, 2, 3]],
       documents := documents sample_world @
         [\<lparr>id' = ''u1'', filename = ''a.pdf'', content_type = ''application/pdf'',
           file_size = 3, extracted_text = Some sample_page, summary_text = None,
           summary_type = None, mindmap_schema = None, schema_type = None,
           created_at = ''2024-01-02T00:00:00+00:00'',
           updated_at = ''2024-01-02T00:00:00+00:00''\<rparr>]\<rparr>)"
proof -
  have s: "strip sample_page = sample_page"
    by (simp add: strip_def isspace_def sample_page_def)
  have ne: "sample_page \<noteq> []"
    by (simp add: sample_page_def)
  have c: "calls sample_world = []"
    by (simp add: sample_world_def)
  show ?thesis
    by (simp add: upload_document_def new_DocumentUpload_def extract_text_from_pdf_def
        sample_env_def sample_page_strip s ne c length_sample_page)
qed

subsection \<open>Unique identifiers\<close>

lemma filter_matches_absent:
  "i \<notin> set (map id' ds) \<Longrightarrow> filter (matches_id i) ds = []"
  by (induction ds) (auto simp add: matches_id_def)

lemma filter_matches_unique:
  "distinct (map id' ds) \<Longrightarrow> length (filter (matches_id i) ds) \<le> 1"
proof (induction ds)
  case Nil
  then show ?case by simp
next
  case (Cons a ds)
  show ?case
  proof (cases "matches_id i a")
    case True
    with Cons.prems have "i \<notin> set (map id' ds)"
      by (auto simp add: matches_id_def)
    then have "filter (matches_id i) ds = []"
      by (rule filter_matches_absent)
    with True show ?thesis by simp
  next
    case False
    with Cons show ?thesis by simp
  qed
qed

lemma find_one_filter:
  "find_one ds i = Some d \<Longrightarrow> filter (matches_id i) ds \<noteq> []"
  by (induction ds) (auto split: if_splits)

lemma find_one_None_filter:
  "find_one ds i = None \<Longrightarrow> filter (matches_id i) ds = []"
  by (induction ds) (auto split: if_splits)

lemma find_one_stored:
  "distinct (map id' ds) \<Longrightarrow> d \<in> set ds \<Longrightarrow> find_one ds (id' d) = Some d"
  by (induction ds) (auto simp add: matches_id_def)

lemma delete_one_subset: "set (snd (delete_one ds i)) \<subseteq> set ds"
  by (induction ds) (auto split: prod.splits)

lemma delete_one_distinct:
  "distinct (map id' ds) \<Longrightarrow> distinct (map id' (snd (delete_one ds i)))"
proof (induction ds)
  case Nil
  then show ?case by simp
next
  case (Cons a ds)
  show ?case
  proof (cases "matches_id i a")
    case True
    with Cons.prems show ?thesis by simp
  next
    case False
    obtain n ds' where d: "delete_one ds i = (n, ds')"
      by (cases "delete_one ds i")
    with delete_one_subset [of ds i] have sub: "set ds' \<subseteq> set ds" by simp
    from Cons d have "distinct (map id' ds')" by simp
    moreover from Cons.prems sub have "id' a \<notin> set (map id' ds')" by auto
    ultimately show ?thesis using False d by simp
  qed
qed

text \<open>
  The invariant is kept: by every operation on stored documents, and by an upload that
  draws an identifier no stored document has.
\<close>

theorem unique_ids_kept:
  assumes "unique_ids w"
  shows "unique_ids (snd (generate_summary env rs w)) \<and>
         unique_ids (snd (generate_schema env rc w)) \<and>
         unique_ids (snd (chat_with_document env rq w)) \<and>
         unique_ids (snd (export_pdf env i p w)) \<and>
         unique_ids (snd (delete_document i w)) \<and>
         (uuid4 env \<notin> set (map id' (documents w)) \<longrightarrow>
            unique_ids (snd (upload_document env u w)))"
proof -
  have del: "unique_ids (snd (delete_document i w))"
    using assms delete_one_distinct [of "documents w" i]
    by (cases "delete_one (documents w) i") (simp add: delete_document_def unique_ids_def)
  have up: "uuid4 env \<notin> set (map id' (documents w)) \<longrightarrow>
            unique_ids (snd (upload_document env u w))"
    using assms upload_documents [of env u w] by (auto simp add: unique_ids_def)
  from assms del up show ?thesis
    by (simp add: unique_ids_def generate_summary_keeps generate_schema_keeps
        chat_keeps_documents export_keeps_documents)
qed

theorem unique_ids_kept_witness:
  "unique_ids sample_world \<and>
   unique_ids (snd (delete_document ''d2'' sample_world)) \<and>
   unique_ids (snd (upload_document (sample_env (Inr []) (Inr ''reply''))
      (UploadFile ''a.png'' (Some ''image/png'') [1, 2, 3]) sample_world))"
proof -
  have u: "unique_ids sample_world"
    by (simp add: unique_ids_def sample_world_def sample_doc_def)
  have f: "uuid4 (sample_env (Inr []) (Inr ''reply'')) \<notin> set (map id' (documents sample_world))"
    by (simp add: sample_env_def sample_world_def sample_doc_def)
  show ?thesis
    using u f unique_ids_kept [OF u, of "sample_env (Inr []) (Inr ''reply'')" _ _ _ "''d2''" _
        "UploadFile ''a.png'' (Some ''image/png'') [1, 2, 3]"]
    by simp
qed

subsection \<open>Deleting twice\<close>

lemma delete_document_absent:
  assumes "find_one (documents w) i = None"
  shows "status_code (fst (delete_document i w)) = 404"
proof -
  have "filter (matches_id i) (documents w) = []"
    using assms by (rule find_one_None_filter)
  then show ?thesis
    using delete_one_count [of "documents w" i]
    by (cases "delete_one (documents w) i") (simp add: delete_document_def)
qed

text \<open>
  Claim C8. In a store with unique identifiers, when a document with the identifier
  exists, the first DELETE answers 200 with the confirmation message and the second
  DELETE, on the state the first one left, answers 404, because it deletes zero records.
\<close>

theorem delete_document_twice:
  assumes unique: "unique_ids w" and exists: "find_one (documents w) i = Some d"
  shows "fst (delete_document i w) = Inr (''Documento '' @ i @ '' eliminato con successo.'') \<and>
     status_code (fst (delete_document i w)) = 200 \<and>
     fst (delete_one (documents (snd (delete_document i w))) i) = 0 \<and>
     find_one (documents (snd (delete_document i w))) i = None \<and>
     status_code (fst (delete_document i (snd (delete_document i w)))) = 404"
proof -
  obtain n docs where d: "delete_one (documents w) i = (n, docs)"
    by (cases "delete_one (documents w) i")
  from exists have ne: "filter (matches_id i) (documents w) \<noteq> []"
    by (rule find_one_filter)
  moreover from unique have "length (filter (matches_id i) (documents w)) \<le> 1"
    unfolding unique_ids_def by (rule filter_matches_unique)
  ultimately have one: "length (filter (matches_id i) (documents w)) = 1"
    by (cases "filter (matches_id i) (documents w)") auto
  have n: "n = 1"
    using delete_one_count [of "documents w" i] d ne by simp
  have "filter (matches_id i) docs = tl (filter (matches_id i) (documents w))"
    using delete_one_filter [of i "documents w"] d by simp
  with one have gone: "filter (matches_id i) docs = []"
    by (cases "filter (matches_id i) (documents w)") auto
  have none: "find_one docs i = None"
  proof (cases "find_one docs i")
    case None
    then show ?thesis .
  next
    case (Some x)
    from find_one_filter [OF this] gone show ?thesis by simp
  qed
  have zero: "fst (delete_one docs i) = 0"
    using delete_one_count [of docs i] gone by simp
  obtain docs2 where d2: "delete_one docs i = (0, docs2)"
    using zero by (cases "delete_one docs i") auto
  show ?thesis
    using d n d2 none by (simp add: delete_document_def)
qed

theorem delete_document_twice_witness:
  "unique_ids sample_world \<and>
   find_one (documents sample_world) ''d2'' = Some (sample_doc ''d2'' None) \<and>
   fst (delete_document ''d2'' sample_world) = Inr ''Documento d2 eliminato con successo.'' \<and>
   status_code (fst (delete_document ''d2'' sample_world)) = 200 \<and>
   status_code
     (fst (delete_document ''d2'' (snd (delete_document ''d2'' sample_world)))) = 404"
proof -
  have u: "unique_ids sample_world"
    by (simp add: unique_ids_def sample_world_def sample_doc_def)
  have f: "find_one (documents sample_world) ''d2'' = Some (sample_doc ''d2'' None)"
    by (simp add: sample_world_def sample_doc_def matches_id_def)
  show ?thesis
    using u f delete_document_twice [OF u f] by simp
qed

end
